theory Spec2Isabelle
  imports Main
begin

section \<open>Strings\<close>

text \<open>
  Go strings are byte sequences; they are modelled as \<open>string\<close> (a list of 8-bit
  characters). The newline byte is \<open>CHR 0x0A\<close>.

  \<open>HasPrefix\<close> and \<open>TrimPrefix\<close> are the functions of Go's package \<open>strings\<close>.
\<close>

fun HasPrefix :: "string \<Rightarrow> string \<Rightarrow> bool" where
  "HasPrefix s [] = True"
| "HasPrefix [] (p # ps) = False"
| "HasPrefix (c # cs) (p # ps) = (c = p \<and> HasPrefix cs ps)"

definition TrimPrefix :: "string \<Rightarrow> string \<Rightarrow> string" where
  "TrimPrefix s p = (if HasPrefix s p then drop (length p) s else s)"

text \<open>
  \<open>after_first needle s\<close> is the text that follows the first (leftmost) occurrence of
  \<open>needle\<close> in \<open>s\<close>, or \<open>None\<close> when \<open>needle\<close> does not occur.
\<close>

fun after_first :: "string \<Rightarrow> string \<Rightarrow> string option" where
  "after_first needle [] = (if needle = [] then Some [] else None)"
| "after_first needle (c # cs) =
     (if HasPrefix (c # cs) needle then Some (drop (length needle) (c # cs))
      else after_first needle cs)"

lemma HasPrefix_iff: "HasPrefix s p \<longleftrightarrow> (\<exists>r. s = p @ r)"
  by (induction s p rule: HasPrefix.induct) auto

lemma after_first_length: "after_first n s = Some r \<Longrightarrow> length r \<le> length s"
  by (induction s) (auto split: if_splits)

text \<open>
  \<open>strings.TrimSpace\<close> removes the leading and the trailing white space, as
  \<open>unicode.IsSpace\<close> defines it: the six ASCII space characters, and the runes
  U+0085, U+00A0, U+1680, U+2000 to U+200A, U+2028, U+2029, U+202F, U+205F and U+3000,
  which a Go string holds in UTF-8. A rune is decoded from the front, or from the back,
  only when its bytes are exactly its encoding, so trimming removes these byte
  sequences from both ends.
\<close>

definition asciiSpace :: "char \<Rightarrow> bool" where
  "asciiSpace c =
     (c = CHR 0x09 \<or> c = CHR 0x0A \<or> c = CHR 0x0B \<or> c = CHR 0x0C \<or> c = CHR 0x0D \<or>
      c = CHR 0x20)"

definition utf8_spaces :: "string list" where
  "utf8_spaces =
     [[CHR 0xC2, CHR 0x85], [CHR 0xC2, CHR 0xA0], [CHR 0xE1, CHR 0x9A, CHR 0x80],
      [CHR 0xE2, CHR 0x80, CHR 0x80], [CHR 0xE2, CHR 0x80, CHR 0x81],
      [CHR 0xE2, CHR 0x80, CHR 0x82], [CHR 0xE2, CHR 0x80, CHR 0x83],
      [CHR 0xE2, CHR 0x80, CHR 0x84], [CHR 0xE2, CHR 0x80, CHR 0x85],
      [CHR 0xE2, CHR 0x80, CHR 0x86], [CHR 0xE2, CHR 0x80, CHR 0x87],
      [CHR 0xE2, CHR 0x80, CHR 0x88], [CHR 0xE2, CHR 0x80, CHR 0x89],
      [CHR 0xE2, CHR 0x80, CHR 0x8A], [CHR 0xE2, CHR 0x80, CHR 0xA8],
      [CHR 0xE2, CHR 0x80, CHR 0xA9], [CHR 0xE2, CHR 0x80, CHR 0xAF],
      [CHR 0xE2, CHR 0x81, CHR 0x9F], [CHR 0xE3, CHR 0x80, CHR 0x80]]"

text \<open>
  The number of bytes of the white-space rune that \<open>s\<close> starts with, \<open>0\<close> when it
  starts with none; \<open>encodings\<close> are the multi-byte white-space runes.
\<close>

definition space_width :: "string list \<Rightarrow> string \<Rightarrow> nat" where
  "space_width encodings s =
     (case s of
        [] \<Rightarrow> 0
      | c # cs \<Rightarrow>
          if asciiSpace c then 1
          else (case find (\<lambda>u. HasPrefix s u) encodings of
                  Some u \<Rightarrow> length u
                | None \<Rightarrow> 0))"

lemma space_width_Nil: "space_width encodings [] = 0"
  by (simp add: space_width_def)

function trim_left :: "string list \<Rightarrow> string \<Rightarrow> string" where
  "trim_left encodings s =
     (if space_width encodings s = 0 then s
      else trim_left encodings (drop (space_width encodings s) s))"
  by pat_completeness auto
termination
proof (relation "measure (\<lambda>(encodings, s). length s)")
  show "wf (measure (\<lambda>(encodings, s). length s))" by simp
next
  fix encodings :: "string list" and s :: string
  assume w: "space_width encodings s \<noteq> 0"
  then have "s \<noteq> []" by (auto simp: space_width_Nil)
  with w show "((encodings, drop (space_width encodings s) s), (encodings, s))
                 \<in> measure (\<lambda>(encodings, s). length s)"
    by simp
qed

declare trim_left.simps [simp del]

definition TrimSpace :: "string \<Rightarrow> string" where
  "TrimSpace s =
     rev (trim_left (map rev utf8_spaces) (rev (trim_left utf8_spaces s)))"

section \<open>The shared vocabulary (package spec)\<close>

type_synonym Role = string

definition RoleSystem :: Role where
  "RoleSystem = ''system''"

definition RoleUser :: Role where
  "RoleUser = ''user''"

definition RoleAssistant :: Role where
  "RoleAssistant = ''assistant''"

record Message =
  Role :: Role
  Content :: string
  ReasoningContent :: string

definition NewSystemMessage :: "string \<Rightarrow> Message" where
  "NewSystemMessage content = \<lparr>Role = RoleSystem, Content = content, ReasoningContent = ''''\<rparr>"

definition NewUserMessage :: "string \<Rightarrow> Message" where
  "NewUserMessage content = \<lparr>Role = RoleUser, Content = content, ReasoningContent = ''''\<rparr>"

definition NewAssistantMessage :: "string \<Rightarrow> Message" where
  "NewAssistantMessage content =
     \<lparr>Role = RoleAssistant, Content = content, ReasoningContent = ''''\<rparr>"

text \<open>The zero value of \<open>Message\<close> (Go's \<open>var responseMessage spec.Message\<close>).\<close>

definition zero_Message :: Message where
  "zero_Message = \<lparr>Role = '''', Content = '''', ReasoningContent = ''''\<rparr>"

record Response =
  Message :: Message
  RawResponse :: string

text \<open>
  Go's \<open>error\<close> values: \<open>Errorf msg\<close> is \<open>fmt.Errorf(msg)\<close> (and any other leaf
  error, named by its message), \<open>Wrap msg e\<close> is \<open>fmt.Errorf(msg + "%w", e)\<close>.
\<close>

datatype error = Errorf string | Wrap string error

text \<open>
  The values stored in a wire-request body (\<open>map[string]any\<close>). A \<open>float32\<close> is
  only passed through, never computed with, so its type is left unspecified.
\<close>

typedecl float32

datatype any =
    AnyBool bool
  | AnyInt int
  | AnyFloat32 float32
  | AnyString string
  | AnyMessages "Message list"
  | AnyMapStringBool "(string \<times> bool) list"

text \<open>
  A stream callback (\<open>spec.StreamCallback\<close>, \<open>func(ctx, content) error\<close>) is a
  closure of the caller: it may keep state of its own (type \<open>'s\<close>), and it returns
  \<open>None\<close> for Go's \<open>nil\<close> error. Its declaration and the field
  \<open>StreamCallback\<close> of \<open>RequestConfig\<close> are read off their uses in
  \<open>dashscope.Chat\<close> (\<open>config.StreamCallback(ctx, delta.Content)\<close>).
\<close>

type_synonym 's StreamCallback = "'s \<Rightarrow> string \<Rightarrow> error option \<times> 's"

record 's RequestConfig =
  Model :: string
  Temperature :: "float32 option"
  MaxTokens :: "int option"
  TopP :: "float32 option"
  Streaming :: bool
  Thinking :: "bool option"
  Parameters :: "string \<rightharpoonup> any"
  StreamCallback :: "'s StreamCallback option"

text \<open>
  \<open>NewRequestConfig\<close> allocates the \<open>Parameters\<close> map, and every option below keeps
  it allocated: the map is a value here, and the adapters' test \<open>requestBody == nil\<close>
  always takes the allocated branch.
\<close>

definition NewRequestConfig :: "'s RequestConfig" where
  "NewRequestConfig =
     \<lparr>Model = '''', Temperature = None, MaxTokens = None, TopP = None, Streaming = False,
      Thinking = None, Parameters = Map.empty, StreamCallback = None\<rparr>"

text \<open>An option is a function that updates the request configuration.\<close>

type_synonym 's Option = "'s RequestConfig \<Rightarrow> 's RequestConfig"

definition WithThinking :: "bool \<Rightarrow> 's Option" where
  "WithThinking enabled = (\<lambda>r. r\<lparr>Thinking := Some enabled\<rparr>)"

definition WithModel :: "string \<Rightarrow> 's Option" where
  "WithModel model = (\<lambda>r. r\<lparr>Model := model\<rparr>)"

definition WithTemperature :: "float32 \<Rightarrow> 's Option" where
  "WithTemperature temp = (\<lambda>r. r\<lparr>Temperature := Some temp\<rparr>)"

definition WithMaxTokens :: "int \<Rightarrow> 's Option" where
  "WithMaxTokens max_tokens = (\<lambda>r. r\<lparr>MaxTokens := Some max_tokens\<rparr>)"

definition WithTopP :: "float32 \<Rightarrow> 's Option" where
  "WithTopP topP = (\<lambda>r. r\<lparr>TopP := Some topP\<rparr>)"

definition WithStreaming :: "'s Option" where
  "WithStreaming = (\<lambda>r. r\<lparr>Streaming := True\<rparr>)"

definition WithParameters :: "(string \<rightharpoonup> any) \<Rightarrow> 's Option" where
  "WithParameters params = (\<lambda>r. r\<lparr>Parameters := Parameters r ++ params\<rparr>)"

definition WithParameter :: "string \<Rightarrow> any \<Rightarrow> 's Option" where
  "WithParameter key v = (\<lambda>r. r\<lparr>Parameters := (Parameters r)(key \<mapsto> v)\<rparr>)"

text \<open>
  Modelled from the spec: the declaration of \<open>spec.WithStreamCallback\<close> is not among
  the sources, only its callers are. It installs the stream sink of the request options
  and requests streaming (the callers pass no other streaming option). The adapters never
  call it; only the example calls below do.
\<close>

definition WithStreamCallback :: "'s StreamCallback \<Rightarrow> 's Option" where
  "WithStreamCallback callback = (\<lambda>r. r\<lparr>StreamCallback := Some callback, Streaming := True\<rparr>)"

text \<open>\<open>for _, opt := range opts { opt(config) }\<close>\<close>

definition apply_options :: "'s Option list \<Rightarrow> 's RequestConfig \<Rightarrow> 's RequestConfig" where
  "apply_options opts config = foldl (\<lambda>c opt. opt c) config opts"

section \<open>Client configuration and the transport\<close>

text \<open>
  The adapters reach the network only through \<open>requester.Post\<close> and
  \<open>requester.PostStream\<close>, which marshal the body, send it with the configured
  \<open>http.Client\<close> and fail on a status outside 2xx. What the network answers is not
  the adapters' business: an \<open>HTTPClient\<close> is modelled by what these two calls return
  for a URL, the headers and the request body.

  A streamed response body is read with a \<open>bufio.Scanner\<close>: \<open>Lines\<close> are the tokens
  that successive calls of \<open>Scan\<close> deliver, and \<open>ScanErr\<close> is what \<open>scanner.Err()\<close>
  reports once the loop is left, after a \<open>break\<close> at the \<open>k\<close>-th line or after
  \<open>Scan\<close> returned false. A read error, or a line too long for the scanner's buffer,
  ends the tokens and shows in \<open>ScanErr\<close>.
\<close>

datatype loop_exit = Broke nat | Exhausted

record Body =
  Lines :: "string list"
  ScanErr :: "loop_exit \<Rightarrow> error option"

type_synonym Header = "(string \<times> string) list"

record HTTPClient =
  Post :: "string \<Rightarrow> Header \<Rightarrow> (string \<rightharpoonup> any) \<Rightarrow> error + string"
  PostStream :: "string \<Rightarrow> Header \<Rightarrow> (string \<rightharpoonup> any) \<Rightarrow> error + Body"

record ClientConfig =
  APIKey :: string
  APIURL :: string
  HTTPClient :: HTTPClient

text \<open>
  \<open>NewClientConfig\<close> installs a default \<open>http.Client\<close> (90 seconds timeout); it is
  the parameter \<open>dflt\<close>.
\<close>

definition NewClientConfig :: "HTTPClient \<Rightarrow> ClientConfig" where
  "NewClientConfig dflt = \<lparr>APIKey = '''', APIURL = '''', HTTPClient = dflt\<rparr>"

type_synonym ClientOption = "ClientConfig \<Rightarrow> ClientConfig"

definition WithAPIKey :: "string \<Rightarrow> ClientOption" where
  "WithAPIKey key = (\<lambda>c. c\<lparr>APIKey := key\<rparr>)"

definition WithAPIURL :: "string \<Rightarrow> ClientOption" where
  "WithAPIURL url = (\<lambda>c. c\<lparr>APIURL := url\<rparr>)"

definition WithHTTPClient :: "HTTPClient \<Rightarrow> ClientOption" where
  "WithHTTPClient cl = (\<lambda>c. c\<lparr>HTTPClient := cl\<rparr>)"

definition apply_client_options :: "ClientOption list \<Rightarrow> ClientConfig \<Rightarrow> ClientConfig" where
  "apply_client_options opts config = foldl (\<lambda>c opt. opt c) config opts"

record Requester =
  requester_HTTPClient :: HTTPClient

record clientImpl =
  requester :: Requester
  config :: ClientConfig

record modelImpl =
  client :: clientImpl
  name :: string

text \<open>
  \<open>json.Unmarshal\<close> into the two response shapes the adapters declare. The decoder
  is Go's library; the adapters only look at whether it fails and at the decoded value,
  so it is a parameter of the model.
\<close>

record apiChoice =
  choice_Message :: Message

record apiResp =
  resp_Choices :: "apiChoice list"

text \<open>The shape of one streamed event (\<open>dashscopeChunk\<close>).\<close>

record chunkDelta =
  delta_Content :: string
  delta_Role :: string

record chunkChoice =
  Delta :: chunkDelta
  FinishReason :: "string option"

record chunkUsage =
  TotalTokens :: int
  InputTokens :: int
  OutputTokens :: int

record dashscopeChunk =
  chunk_Choices :: "chunkChoice list"
  Usage :: "chunkUsage option"

record JSON =
  Unmarshal_apiResp :: "string \<Rightarrow> error + apiResp"
  Unmarshal_chunk :: "string \<Rightarrow> error + dashscopeChunk"

section \<open>The generic adapter (package generic)\<close>

subsection \<open>The reasoning-block cleanup\<close>

text \<open>
  \<open>thinkTagRegex = regexp.MustCompile(`(?s)<think>.*?</think>\n\n`)\<close> and
  \<open>thinkTagRegex.ReplaceAllString(content, "")\<close>.

  Go's regexp finds the leftmost match and, with the non-greedy \<open>.*?\<close>, ends it at
  the first \<open></think>\<close> followed by two newlines that comes after the opening tag;
  under \<open>(?s)\<close> the dot matches every character, the newline included.
  \<open>ReplaceAllString\<close> deletes the match and goes on behind it. Both tags are ASCII,
  so a match starts and ends between characters also in UTF-8 text.
\<close>

definition think_open :: string where
  "think_open = ''<think>''"

definition think_close :: string where
  "think_close = ''</think>'' @ [CHR 0x0A, CHR 0x0A]"

function ReplaceAllString_think :: "string \<Rightarrow> string" where
  "ReplaceAllString_think [] = []"
| "ReplaceAllString_think (c # cs) =
     (if HasPrefix (c # cs) think_open then
        (case after_first think_close (drop (length think_open) (c # cs)) of
           Some rest \<Rightarrow> ReplaceAllString_think rest
         | None \<Rightarrow> c # ReplaceAllString_think cs)
      else c # ReplaceAllString_think cs)"
  by pat_completeness auto
termination
proof (relation "measure length")
  show "wf (measure length)" by simp
next
  fix c cs rest
  assume "after_first think_close (drop (length think_open) (c # cs)) = Some rest"
  then have "length rest \<le> length (drop (length think_open) (c # cs))"
    by (rule after_first_length)
  then show "(rest, c # cs) \<in> measure length"
    by (simp add: think_open_def)
qed simp_all

text \<open>
  A text holds a reasoning block when an opening tag is followed, somewhere behind it, by
  the closing tag and its two newlines: exactly the texts the regular expression matches
  in.
\<close>

definition has_think_block :: "string \<Rightarrow> bool" where
  "has_think_block s =
     (case after_first think_open s of
        None \<Rightarrow> False
      | Some r \<Rightarrow> after_first think_close r \<noteq> None)"

subsection \<open>Chat\<close>

definition no_think :: string where
  "no_think = CHR 0x0A # ''/no_think''"

text \<open>
  The loop over the copy \<open>processedMessages\<close>:
  \<^verbatim>\<open>for i, msg := range processedMessages {
      if msg.Role == spec.RoleSystem { messages[i].Content += "\n/no_think"; break } }\<close>
  It reads the copy and writes to \<open>messages\<close>, the slice the caller passed. The index
  \<open>i\<close> is in range, since the copy has the length of \<open>messages\<close>.
\<close>

fun no_think_loop :: "nat \<Rightarrow> Message list \<Rightarrow> Message list \<Rightarrow> Message list" where
  "no_think_loop i [] messages = messages"
| "no_think_loop i (msg # rest) messages =
     (if Role msg = RoleSystem
      then messages[i := (messages ! i)\<lparr>Content := Content (messages ! i) @ no_think\<rparr>]
      else no_think_loop (Suc i) rest messages)"

text \<open>
  The first half of \<open>Chat\<close>, up to the call of the requester: the request body and
  the headers that are sent, and the contents of the caller's slice \<open>messages\<close> at that
  point. The test \<open>config.Thinking != nil && !*config.Thinking\<close> is
  \<open>Thinking config = Some False\<close>. The body refers to \<open>messages\<close>, not to the
  copy. A Go slice shares its elements with the caller, so a write through
  \<open>messages\<close> is visible to the caller.
\<close>

definition generic_request ::
  "modelImpl \<Rightarrow> Message list \<Rightarrow> 's Option list \<Rightarrow> (string \<rightharpoonup> any) \<times> Header \<times> Message list"
where
  "generic_request m messages opts =
     (let config = apply_options opts NewRequestConfig;
          processedMessages = messages;
          messages =
            (if Thinking config = Some False
             then no_think_loop 0 processedMessages messages
             else messages);
          requestBody = Parameters config;
          requestBody = requestBody(''model'' \<mapsto> AnyString (name m));
          requestBody = requestBody(''messages'' \<mapsto> AnyMessages messages);
          requestBody =
            (case Temperature config of
               Some t \<Rightarrow> requestBody(''temperature'' \<mapsto> AnyFloat32 t)
             | None \<Rightarrow> requestBody);
          headers =
            [(''Content-Type'', ''application/json''),
             (''Authorization'', ''Bearer '' @ APIKey (clientImpl.config (client m)))]
      in (requestBody, headers, messages))"

text \<open>
  \<open>generic_Chat\<close> returns what \<open>Chat\<close> returns, together with the contents of the
  caller's slice \<open>messages\<close> when it returns.
\<close>

definition generic_Chat ::
  "JSON \<Rightarrow> modelImpl \<Rightarrow> Message list \<Rightarrow> 's Option list \<Rightarrow> (error + Response) \<times> Message list"
where
  "generic_Chat J m messages opts =
     (case generic_request m messages opts of
        (requestBody, headers, messages) \<Rightarrow>
          (case Post (requester_HTTPClient (requester (client m)))
                  (APIURL (clientImpl.config (client m))) headers requestBody of
             Inl err \<Rightarrow> (Inl err, messages)
           | Inr rawBody \<Rightarrow>
               (case Unmarshal_apiResp J rawBody of
                  Inl err \<Rightarrow>
                    (Inl (Wrap ''generic provider: failed to unmarshal response: '' err),
                     messages)
                | Inr r \<Rightarrow>
                    if length (resp_Choices r) = 0
                    then (Inl (Errorf ''generic provider: invalid response, no choices found''),
                          messages)
                    else
                      let responseMessage = choice_Message (resp_Choices r ! 0);
                          responseMessage = responseMessage
                            \<lparr>Content := ReplaceAllString_think (Content responseMessage)\<rparr>
                      in (Inr \<lparr>Message = responseMessage, RawResponse = rawBody\<rparr>,
                          messages))))"

section \<open>The cloud-hosted adapter (package dashscope)\<close>

text \<open>
  The request body that \<open>Chat\<close> hands to the requester. The entries of
  \<open>config.Parameters\<close> are its base; the adapter's own fields are stored over them.
\<close>

definition dashscope_requestBody ::
  "modelImpl \<Rightarrow> Message list \<Rightarrow> 's Option list \<Rightarrow> (string \<rightharpoonup> any)"
where
  "dashscope_requestBody m messages opts =
     (let config = apply_options opts NewRequestConfig;
          requestBody = Parameters config;
          requestBody =
            (case Thinking config of
               Some t \<Rightarrow> requestBody(''enable_thinking'' \<mapsto> AnyBool t)
             | None \<Rightarrow> requestBody);
          requestBody = requestBody(''model'' \<mapsto> AnyString (name m));
          requestBody = requestBody(''messages'' \<mapsto> AnyMessages messages);
          requestBody =
            (case Temperature config of
               Some t \<Rightarrow> requestBody(''temperature'' \<mapsto> AnyFloat32 t)
             | None \<Rightarrow> requestBody)
      in if Streaming config
         then requestBody
                (''stream'' \<mapsto> AnyBool True,
                 ''stream_options'' \<mapsto> AnyMapStringBool [(''include_usage'', True)])
         else requestBody)"

definition bearer_headers :: "modelImpl \<Rightarrow> Header" where
  "bearer_headers m =
     [(''Content-Type'', ''application/json''),
      (''Authorization'', ''Bearer '' @ APIKey (clientImpl.config (client m)))]"

subsection \<open>The streaming loop\<close>

text \<open>
  The variables of the loop: the accumulated content and the running role. \<open>sink\<close> is
  the state of the caller's callback, and \<open>calls\<close> records the fragments the
  callback was invoked with, in order (it is not a variable of the program).
\<close>

record 's stream =
  fullContent :: string
  role :: string
  sink :: 's
  calls :: "string list"

text \<open>
  What one pass of the loop body does: \<open>continue\<close> (or reaching the end of the body),
  \<open>break\<close>, \<open>return nil, err\<close>, or the run-time panic of an index out of range.
\<close>

datatype 's step =
    Continue "'s stream"
  | Break "'s stream"
  | Return error "'s stream"
  | IndexOutOfRange

text \<open>Go's \<open>xs[i]\<close>: \<open>None\<close> stands for the panic.\<close>

definition index :: "'a list \<Rightarrow> nat \<Rightarrow> 'a option" where
  "index xs i = (if i < length xs then Some (xs ! i) else None)"

definition stream_line ::
  "JSON \<Rightarrow> 's StreamCallback option \<Rightarrow> string \<Rightarrow> 's stream \<Rightarrow> 's step"
where
  "stream_line J callback line st =
     (if \<not> HasPrefix line ''data: '' then Continue st
      else
        let dataStr = TrimPrefix line ''data: '';
            dataStr = TrimSpace dataStr
        in if dataStr = ''[DONE]'' then Break st
           else
             (case Unmarshal_chunk J dataStr of
                Inl err \<Rightarrow> Continue st
              | Inr chunk \<Rightarrow>
                  if length (chunk_Choices chunk) > 0 then
                    (case index (chunk_Choices chunk) 0 of
                       None \<Rightarrow> IndexOutOfRange
                     | Some choice \<Rightarrow>
                         let delta = Delta choice;
                             st = (if delta_Role delta \<noteq> ''''
                                   then st\<lparr>role := delta_Role delta\<rparr> else st)
                         in if delta_Content delta \<noteq> '''' then
                              let st = st\<lparr>fullContent :=
                                         fullContent st @ delta_Content delta\<rparr>
                              in (case callback of
                                    None \<Rightarrow> Continue st
                                  | Some f \<Rightarrow>
                                      let (err, s') = f (sink st) (delta_Content delta);
                                          st = st\<lparr>sink := s',
                                                  calls := calls st @ [delta_Content delta]\<rparr>
                                      in (case err of
                                            Some e \<Rightarrow> Return e st
                                          | None \<Rightarrow> Continue st))
                            else Continue st)
                  else Continue st))"

text \<open>
  How the loop is left: \<open>Left st x\<close> when \<open>Scan\<close> returned false or the loop body
  said \<open>break\<close>, \<open>Returned err st k\<close> when the body returned inside the \<open>k\<close>-th
  line, \<open>Panicked\<close> for a run-time panic. The counter \<open>k\<close> is the number of lines
  scanned so far.
\<close>

datatype 's loop_end =
    Left "'s stream" loop_exit
  | Returned error "'s stream" nat
  | Panicked

fun stream_loop ::
  "JSON \<Rightarrow> 's StreamCallback option \<Rightarrow> string list \<Rightarrow> nat \<Rightarrow> 's stream \<Rightarrow> 's loop_end"
where
  "stream_loop J callback [] k st = Left st Exhausted"
| "stream_loop J callback (line # rest) k st =
     (case stream_line J callback line st of
        Continue st' \<Rightarrow> stream_loop J callback rest (Suc k) st'
      | Break st' \<Rightarrow> Left st' (Broke (Suc k))
      | Return err st' \<Rightarrow> Returned err st' (Suc k)
      | IndexOutOfRange \<Rightarrow> Panicked)"

subsection \<open>Chat\<close>

text \<open>
  A call either returns (a response or an error) or panics. Besides the result,
  \<open>dashscope_Chat\<close> reports what the call did to its surroundings: the state of the
  callback, the fragments the callback was invoked with, and the number of lines read
  from the response body.
\<close>

datatype 'a outcome = Returns 'a | Panics

record 's effects =
  sink_state :: 's
  sink_calls :: "string list"
  lines_read :: nat

definition dashscope_Chat ::
  "JSON \<Rightarrow> modelImpl \<Rightarrow> Message list \<Rightarrow> 's Option list \<Rightarrow> 's \<Rightarrow>
     (error + Response) outcome \<times> 's effects"
where
  "dashscope_Chat J m messages opts s0 =
     (let config = apply_options opts NewRequestConfig;
          requestBody = dashscope_requestBody m messages opts;
          headers = bearer_headers m;
          untouched = \<lparr>sink_state = s0, sink_calls = [], lines_read = 0\<rparr>
      in if Streaming config then
           (case PostStream (requester_HTTPClient (requester (client m)))
                   (APIURL (clientImpl.config (client m))) headers requestBody of
              Inl err \<Rightarrow> (Returns (Inl err), untouched)
            | Inr body \<Rightarrow>
                (case stream_loop J (StreamCallback config) (Lines body) 0
                        \<lparr>fullContent = '''', role = ''assistant'', sink = s0, calls = []\<rparr> of
                   Returned err st k \<Rightarrow>
                     (Returns (Inl err),
                      \<lparr>sink_state = sink st, sink_calls = calls st, lines_read = k\<rparr>)
                 | Panicked \<Rightarrow> (Panics, untouched)
                 | Left st x \<Rightarrow>
                     (case ScanErr body x of
                        Some err \<Rightarrow> Returns (Inl (Wrap ''dashscope: stream scan error: '' err))
                      | None \<Rightarrow>
                          Returns (Inr \<lparr>Message =
                                          \<lparr>Role = role st, Content = fullContent st,
                                           ReasoningContent = ''''\<rparr>,
                                        RawResponse = ''''\<rparr>),
                      \<lparr>sink_state = sink st, sink_calls = calls st,
                       lines_read = (case x of Broke k \<Rightarrow> k | Exhausted \<Rightarrow> length (Lines body))\<rparr>)))
         else
           (case Post (requester_HTTPClient (requester (client m)))
                   (APIURL (clientImpl.config (client m))) headers requestBody of
              Inl err \<Rightarrow> (Returns (Inl err), untouched)
            | Inr rawBody \<Rightarrow>
                (case Unmarshal_apiResp J rawBody of
                   Inl err \<Rightarrow>
                     (Returns (Inl (Wrap ''dashscope: failed to unmarshal response: '' err)),
                      untouched)
                 | Inr r \<Rightarrow>
                     let responseMessage =
                           (if length (resp_Choices r) > 0
                            then choice_Message (resp_Choices r ! 0)
                            else zero_Message)
                     in (Returns (Inr \<lparr>Message = responseMessage, RawResponse = rawBody\<rparr>),
                         untouched))))"

section \<open>The OpenAI-compatible adapter (package openai)\<close>

definition openai_requestBody ::
  "modelImpl \<Rightarrow> Message list \<Rightarrow> 's Option list \<Rightarrow> (string \<rightharpoonup> any)"
where
  "openai_requestBody m messages opts =
     (let config = apply_options opts NewRequestConfig;
          requestBody = Parameters config;
          requestBody = requestBody(''model'' \<mapsto> AnyString (name m));
          requestBody = requestBody(''messages'' \<mapsto> AnyMessages messages);
          requestBody =
            (case Temperature config of
               Some t \<Rightarrow> requestBody(''temperature'' \<mapsto> AnyFloat32 t)
             | None \<Rightarrow> requestBody);
          requestBody =
            (case MaxTokens config of
               Some n \<Rightarrow> requestBody(''max_tokens'' \<mapsto> AnyInt n)
             | None \<Rightarrow> requestBody);
          requestBody =
            (case TopP config of
               Some p \<Rightarrow> requestBody(''top_p'' \<mapsto> AnyFloat32 p)
             | None \<Rightarrow> requestBody)
      in if Streaming config then requestBody(''stream'' \<mapsto> AnyBool True)
         else requestBody)"

definition openai_Chat ::
  "JSON \<Rightarrow> modelImpl \<Rightarrow> Message list \<Rightarrow> 's Option list \<Rightarrow> error + Response"
where
  "openai_Chat J m messages opts =
     (case Post (requester_HTTPClient (requester (client m)))
             (APIURL (clientImpl.config (client m))) (bearer_headers m)
             (openai_requestBody m messages opts) of
        Inl err \<Rightarrow> Inl err
      | Inr rawBody \<Rightarrow>
          (case Unmarshal_apiResp J rawBody of
             Inl err \<Rightarrow> Inl (Wrap ''openai provider: failed to unmarshal response: '' err)
           | Inr r \<Rightarrow>
               let responseMessage =
                     (if length (resp_Choices r) > 0
                      then choice_Message (resp_Choices r ! 0)
                      else zero_Message)
               in Inr \<lparr>Message = responseMessage, RawResponse = rawBody\<rparr>))"

section \<open>Client construction\<close>

text \<open>
  The three \<open>NewClient\<close> functions. \<open>dflt\<close> is the default \<open>http.Client\<close> that
  \<open>spec.NewClientConfig\<close> installs.
\<close>

definition dashscope_NewClient :: "HTTPClient \<Rightarrow> ClientOption list \<Rightarrow> error + clientImpl" where
  "dashscope_NewClient dflt opts =
     (let config = NewClientConfig dflt;
          config = config
            \<lparr>APIURL := ''https://dashscope.aliyuncs.com/compatible-mode/v1/chat/completions''\<rparr>;
          config = apply_client_options opts config
      in if APIKey config = ''''
         then Inl (Errorf ''dashscope: API key is required, use llm.WithAPIKey() option'')
         else Inr \<lparr>requester = \<lparr>requester_HTTPClient = HTTPClient config\<rparr>,
                  config = config\<rparr>)"

definition generic_NewClient :: "HTTPClient \<Rightarrow> ClientOption list \<Rightarrow> error + clientImpl" where
  "generic_NewClient dflt opts =
     (let config = NewClientConfig dflt;
          config = apply_client_options opts config
      in if APIKey config = ''''
         then Inl (Errorf ''generic provider: API key is required, use llm.WithAPIKey()'')
         else if APIURL config = ''''
         then Inl (Errorf
           ''generic provider: API URL is required for private deployment, use llm.WithAPIURL()'')
         else Inr \<lparr>requester = \<lparr>requester_HTTPClient = HTTPClient config\<rparr>,
                  config = config\<rparr>)"

definition openai_NewClient :: "HTTPClient \<Rightarrow> ClientOption list \<Rightarrow> error + clientImpl" where
  "openai_NewClient dflt opts =
     (let config = NewClientConfig dflt;
          config = config\<lparr>APIURL := ''https://api.openai.com/v1/chat/completions''\<rparr>;
          config = apply_client_options opts config
      in if APIKey config = ''''
         then Inl (Errorf ''openai provider: API key is required, use spec.WithAPIKey()'')
         else Inr \<lparr>requester = \<lparr>requester_HTTPClient = HTTPClient config\<rparr>,
                  config = config\<rparr>)"

text \<open>\<open>Model\<close> binds a model name to a client.\<close>

definition Model_of :: "clientImpl \<Rightarrow> string \<Rightarrow> modelImpl" where
  "Model_of c nm = \<lparr>client = c, name = nm\<rparr>"

section \<open>The facade (package llm)\<close>

text \<open>
  The fields of \<open>llm.Config\<close> that \<open>GetClient\<close> reads, and the model name, the
  system prompt and the thinking switch beside them.
\<close>

record Config =
  cfg_Provider :: string
  cfg_Model :: string
  cfg_APIKey :: string
  cfg_APIURL :: string
  cfg_SystemPrompt :: string
  cfg_Thinking :: "bool option"

text \<open>
  A \<open>spec.Client\<close> held in the cache is a pointer to the \<open>clientImpl\<close> of one of the
  three packages. The objects that \<open>NewClient\<close> allocates live in \<open>heap\<close>; a pointer
  is the position of its object there, so two clients are the same instance when their
  pointers are equal. \<open>clientCache\<close> is the package variable of that name. The two
  lookups of \<open>GetClient\<close> (before and after taking the write lock) read the same map
  when calls do not overlap.
\<close>

datatype Client =
    DashscopeClient clientImpl
  | GenericClient clientImpl
  | OpenAIClient clientImpl

record facade =
  clientCache :: "string \<rightharpoonup> nat"
  heap :: "Client list"

definition facade_init :: facade where
  "facade_init = \<lparr>clientCache = Map.empty, heap = []\<rparr>"

text \<open>\<open>fmt.Sprintf("%s|%s|%s", cfg.Provider, cfg.APIURL, cfg.APIKey)\<close>\<close>

definition cacheKey :: "Config \<Rightarrow> string" where
  "cacheKey cfg = cfg_Provider cfg @ ''|'' @ cfg_APIURL cfg @ ''|'' @ cfg_APIKey cfg"

text \<open>
  The part of \<open>GetClient\<close> that builds the client options and dispatches on the
  provider name; the default branch of the \<open>switch\<close> returns the unknown-provider
  error.
\<close>

definition construct :: "HTTPClient \<Rightarrow> Config \<Rightarrow> error + Client" where
  "construct dflt cfg =
     (let clientOpts = [WithAPIKey (cfg_APIKey cfg)];
          clientOpts =
            (if cfg_APIURL cfg \<noteq> '''' then clientOpts @ [WithAPIURL (cfg_APIURL cfg)]
             else clientOpts)
      in if cfg_Provider cfg = ''dashscope''
         then map_sum id DashscopeClient (dashscope_NewClient dflt clientOpts)
         else if cfg_Provider cfg = ''generic''
         then map_sum id GenericClient (generic_NewClient dflt clientOpts)
         else if cfg_Provider cfg = ''openai''
         then map_sum id OpenAIClient (openai_NewClient dflt clientOpts)
         else Inl (Errorf (''unknown provider: '' @ cfg_Provider cfg)))"

definition GetClient :: "HTTPClient \<Rightarrow> Config \<Rightarrow> facade \<Rightarrow> (error + nat) \<times> facade" where
  "GetClient dflt cfg st =
     (case clientCache st (cacheKey cfg) of
        Some c \<Rightarrow> (Inr c, st)
      | None \<Rightarrow>
          (case clientCache st (cacheKey cfg) of
             Some c \<Rightarrow> (Inr c, st)
           | None \<Rightarrow>
               (case construct dflt cfg of
                  Inl err \<Rightarrow> (Inl err, st)
                | Inr newClient \<Rightarrow>
                    (Inr (length (heap st)),
                     st\<lparr>heap := heap st @ [newClient],
                        clientCache := (clientCache st)(cacheKey cfg \<mapsto> length (heap st))\<rparr>))))"

text \<open>A run of resolutions, one after the other, keeping the state.\<close>

fun resolve_all :: "HTTPClient \<Rightarrow> Config list \<Rightarrow> facade \<Rightarrow> facade" where
  "resolve_all dflt [] st = st"
| "resolve_all dflt (cfg # cfgs) st = resolve_all dflt cfgs (snd (GetClient dflt cfg st))"

section \<open>Properties of the reasoning-block cleanup\<close>

lemma after_first_SomeD:
  "after_first n s = Some r \<Longrightarrow> \<exists>a. s = a @ n @ r"
proof (induction s)
  case Nil
  then show ?case by (auto split: if_splits)
next
  case (Cons c cs)
  show ?case
  proof (cases "HasPrefix (c # cs) n")
    case True
    then obtain t where t: "c # cs = n @ t" by (auto simp: HasPrefix_iff)
    from Cons.prems True have "r = drop (length n) (c # cs)" by simp
    with t have "r = t" by simp
    with t have "c # cs = [] @ n @ r" by simp
    then show ?thesis by blast
  next
    case False
    with Cons.prems have "after_first n cs = Some r" by simp
    then obtain a where "cs = a @ n @ r" using Cons.IH by blast
    then have "c # cs = (c # a) @ n @ r" by simp
    then show ?thesis by blast
  qed
qed

lemma after_first_occurs:
  "after_first n (a @ n @ r) \<noteq> None"
proof (induction a)
  case Nil
  show ?case
  proof (cases "n @ r")
    case Nil
    then show ?thesis by simp
  next
    case (Cons c cs)
    have "HasPrefix (n @ r) n" by (auto simp: HasPrefix_iff)
    with Cons show ?thesis by simp
  qed
next
  case (Cons c a)
  then show ?case by simp
qed

lemma after_first_suffix:
  "after_first n (a @ n @ r) = Some r' \<Longrightarrow> \<exists>x. r' = x @ r"
proof (induction a)
  case Nil
  have hp: "HasPrefix (n @ r) n" by (auto simp: HasPrefix_iff)
  show ?case
  proof (cases "n @ r")
    case Nil
    with Nil.prems show ?thesis by (auto split: if_splits)
  next
    case (Cons c cs)
    with hp Nil.prems have "r' = drop (length n) (n @ r)" by simp
    then show ?thesis by simp
  qed
next
  case (Cons c a)
  show ?case
  proof (cases "HasPrefix (c # a @ n @ r) n")
    case True
    with Cons.prems have r': "r' = drop (length n) ((c # a) @ (n @ r))" by simp
    have "drop (length n) ((c # a) @ (n @ r)) =
          (drop (length n) (c # a) @ drop (length n - length (c # a)) n) @ r"
      by (simp only: drop_append) simp
    with r' show ?thesis by blast
  next
    case False
    with Cons show ?thesis by simp
  qed
qed

lemma has_think_block_iff:
  "has_think_block s \<longleftrightarrow> (\<exists>a b c. s = a @ think_open @ b @ think_close @ c)"
proof
  assume "has_think_block s"
  then obtain r r' where r: "after_first think_open s = Some r"
    and r': "after_first think_close r = Some r'"
    by (auto simp: has_think_block_def split: option.splits)
  from after_first_SomeD[OF r] obtain a where "s = a @ think_open @ r" by blast
  moreover from after_first_SomeD[OF r'] obtain b where "r = b @ think_close @ r'" by blast
  ultimately show "\<exists>a b c. s = a @ think_open @ b @ think_close @ c" by blast
next
  assume "\<exists>a b c. s = a @ think_open @ b @ think_close @ c"
  then obtain a b c where s: "s = a @ think_open @ b @ think_close @ c" by blast
  then obtain r where r: "after_first think_open s = Some r"
    using after_first_occurs[of think_open a "b @ think_close @ c"] by auto
  with s obtain x where "r = x @ b @ think_close @ c"
    using after_first_suffix[of think_open a "b @ think_close @ c" r] by auto
  then have "r = (x @ b) @ think_close @ c" by simp
  then have "after_first think_close r \<noteq> None"
    using after_first_occurs[of think_close "x @ b" c] by simp
  with r show "has_think_block s" by (auto simp add: has_think_block_def)
qed

lemma has_think_block_Cons: "has_think_block cs \<Longrightarrow> has_think_block (c # cs)"
  unfolding has_think_block_iff by (metis append_Cons)

lemma has_think_block_here:
  assumes "HasPrefix s think_open"
    and "after_first think_close (drop (length think_open) s) = Some r"
  shows "has_think_block s"
proof -
  from assms(1) obtain t where t: "s = think_open @ t" by (auto simp: HasPrefix_iff)
  with assms(2) have "after_first think_close t = Some r" by simp
  from after_first_SomeD[OF this] obtain b where "t = b @ think_close @ r" by blast
  with t have "s = [] @ think_open @ b @ think_close @ r" by simp
  then show ?thesis unfolding has_think_block_iff by blast
qed

lemma clean_unchanged: "\<not> has_think_block s \<Longrightarrow> ReplaceAllString_think s = s"
proof (induction s rule: ReplaceAllString_think.induct)
  case 1
  show ?case by simp
next
  case (2 c cs)
  have ncs: "\<not> has_think_block cs" using "2.prems" has_think_block_Cons by blast
  show ?case
  proof (cases "HasPrefix (c # cs) think_open")
    case True
    have none: "after_first think_close (drop (length think_open) (c # cs)) = None"
    proof (rule ccontr)
      assume "after_first think_close (drop (length think_open) (c # cs)) \<noteq> None"
      then obtain r where "after_first think_close (drop (length think_open) (c # cs)) = Some r"
        by auto
      from has_think_block_here[OF True this] "2.prems" show False by simp
    qed
    from "2.IH"(1)[OF True none ncs] True none show ?thesis by simp
  next
    case False
    from "2.IH"(3)[OF False ncs] False show ?thesis by simp
  qed
qed

lemma ReplaceAllString_think_length: "length (ReplaceAllString_think s) \<le> length s"
proof (induction s rule: ReplaceAllString_think.induct)
  case 1
  show ?case by simp
next
  case (2 c cs)
  show ?case
  proof (cases "HasPrefix (c # cs) think_open")
    case True
    show ?thesis
    proof (cases "after_first think_close (drop (length think_open) (c # cs))")
      case None
      from "2.IH"(1)[OF True None] True None show ?thesis by simp
    next
      case (Some r)
      from after_first_length[OF Some] have "length r \<le> length (c # cs)" by simp
      moreover from "2.IH"(2)[OF True Some] have "length (ReplaceAllString_think r) \<le> length r" .
      ultimately show ?thesis using True Some by simp
    qed
  next
    case False
    from "2.IH"(3)[OF False] False show ?thesis by simp
  qed
qed

lemma block_shrinks: "has_think_block s \<Longrightarrow> length (ReplaceAllString_think s) < length s"
proof (induction s rule: ReplaceAllString_think.induct)
  case 1
  then show ?case by (simp add: has_think_block_def think_open_def)
next
  case (2 c cs)
  show ?case
  proof (cases "HasPrefix (c # cs) think_open")
    case True
    show ?thesis
    proof (cases "after_first think_close (drop (length think_open) (c # cs))")
      case None
      with True "2.prems" have False
        by (simp add: has_think_block_def)
      then show ?thesis ..
    next
      case (Some r)
      from after_first_length[OF Some] have "length r < length (c # cs)"
        by (simp add: think_open_def)
      moreover have "length (ReplaceAllString_think r) \<le> length r"
        by (rule ReplaceAllString_think_length)
      ultimately show ?thesis using True Some by simp
    qed
  next
    case False
    with "2.prems" have hb: "has_think_block cs"
      by (simp add: has_think_block_def)
    from "2.IH"(3)[OF False hb] False show ?thesis by simp
  qed
qed

text \<open>
  The cleanup is not idempotent on every text: deleting a block joins the text before
  it to the text behind it, and the join can form a new block. In \<open>spliced\<close> the
  inner block sits inside the letters of an outer opening tag.
\<close>

definition spliced :: string where
  "spliced = ''<think<think>x'' @ think_close @ ''>y'' @ think_close"

lemma spliced_once:
  "ReplaceAllString_think spliced = ''<think>y'' @ think_close"
  by (simp add: spliced_def think_open_def think_close_def)

lemma spliced_twice:
  "ReplaceAllString_think (ReplaceAllString_think spliced) = []"
  by (simp add: spliced_def think_open_def think_close_def)

theorem cleanup_not_idempotent:
  "\<not> (\<forall>s. ReplaceAllString_think (ReplaceAllString_think s) = ReplaceAllString_think s)"
proof
  assume "\<forall>s. ReplaceAllString_think (ReplaceAllString_think s) = ReplaceAllString_think s"
  then have "ReplaceAllString_think (ReplaceAllString_think spliced) =
             ReplaceAllString_think spliced"
    by blast
  then show False
    by (simp add: spliced_def think_open_def think_close_def)
qed

text \<open>
  C2, as far as it holds. A text without a reasoning block is left unchanged by the
  cleanup. Cleaning twice gives the same as cleaning once exactly when the text cleaned
  once holds no reasoning block; it is not so for every text
  (\<open>cleanup_not_idempotent\<close>).
\<close>

theorem cleanup_idempotent_iff_clean:
  "(\<not> has_think_block s \<longrightarrow> ReplaceAllString_think s = s) \<and>
   (ReplaceAllString_think (ReplaceAllString_think s) = ReplaceAllString_think s
      \<longleftrightarrow> \<not> has_think_block (ReplaceAllString_think s))"
proof (intro conjI impI iffI)
  assume "\<not> has_think_block s"
  then show "ReplaceAllString_think s = s" by (rule clean_unchanged)
next
  assume "\<not> has_think_block (ReplaceAllString_think s)"
  then show "ReplaceAllString_think (ReplaceAllString_think s) = ReplaceAllString_think s"
    by (rule clean_unchanged)
next
  assume same: "ReplaceAllString_think (ReplaceAllString_think s) = ReplaceAllString_think s"
  show "\<not> has_think_block (ReplaceAllString_think s)"
  proof
    assume "has_think_block (ReplaceAllString_think s)"
    then have "length (ReplaceAllString_think (ReplaceAllString_think s)) <
               length (ReplaceAllString_think s)"
      by (rule block_shrinks)
    with same show False by simp
  qed
qed

theorem cleanup_idempotent_iff_clean_witness:
  "\<not> has_think_block ''Final answer'' \<and>
   ReplaceAllString_think ''Final answer'' = ''Final answer'' \<and>
   ReplaceAllString_think (''<think>reasoning'' @ think_close @ ''Final answer'') =
     ''Final answer'' \<and>
   ReplaceAllString_think
     (ReplaceAllString_think (''<think>reasoning'' @ think_close @ ''Final answer'')) =
     ReplaceAllString_think (''<think>reasoning'' @ think_close @ ''Final answer'')"
proof -
  have clean: "\<not> has_think_block ''Final answer''"
    by (simp add: has_think_block_def think_open_def think_close_def)
  have once: "ReplaceAllString_think (''<think>reasoning'' @ think_close @ ''Final answer'') =
              ''Final answer''"
    by (simp add: think_open_def think_close_def)
  from clean once
    cleanup_idempotent_iff_clean [of "''Final answer''"]
    cleanup_idempotent_iff_clean [of "''<think>reasoning'' @ think_close @ ''Final answer''"]
  show ?thesis by simp
qed

section \<open>Example surroundings\<close>

text \<open>
  Concrete transports, decoders and models, for evaluating the adapters: a network that
  is down, a transport that answers every post with the same body, a decoder that yields
  the same response for every body.
\<close>

definition http_down :: HTTPClient where
  "http_down =
     \<lparr>Post = (\<lambda>url headers body. Inl (Errorf ''requester: request failed'')),
      PostStream = (\<lambda>url headers body. Inl (Errorf ''requester: request failed''))\<rparr>"

definition http_answering :: "string \<Rightarrow> string list \<Rightarrow> HTTPClient" where
  "http_answering raw ls =
     \<lparr>Post = (\<lambda>url headers body. Inr raw),
      PostStream = (\<lambda>url headers body. Inr \<lparr>Lines = ls, ScanErr = (\<lambda>x. None)\<rparr>)\<rparr>"

definition no_chunk :: "error + dashscopeChunk" where
  "no_chunk = Inl (Errorf ''invalid character'')"

definition json_answering :: "apiResp \<Rightarrow> (string \<Rightarrow> error + dashscopeChunk) \<Rightarrow> JSON" where
  "json_answering r chunks = \<lparr>Unmarshal_apiResp = (\<lambda>raw. Inr r), Unmarshal_chunk = chunks\<rparr>"

definition model_on :: "HTTPClient \<Rightarrow> modelImpl" where
  "model_on h =
     \<lparr>client =
        \<lparr>requester = \<lparr>requester_HTTPClient = h\<rparr>,
         config = \<lparr>APIKey = ''sk-1'', APIURL = ''http://qwen.example/v1/chat/completions'',
                   HTTPClient = h\<rparr>\<rparr>,
      name = ''/mnt/Qwen3-30B-A3B/''\<rparr>"

definition test_messages :: "Message list" where
  "test_messages =
     [NewSystemMessage ''You are a helpful assistant.'', NewUserMessage ''hello'']"

definition answer_with :: "string \<Rightarrow> apiResp" where
  "answer_with content =
     \<lparr>resp_Choices = [\<lparr>choice_Message = NewAssistantMessage content\<rparr>]\<rparr>"

lemmas example_defs =
  http_down_def http_answering_def no_chunk_def json_answering_def model_on_def
  test_messages_def answer_with_def NewSystemMessage_def NewUserMessage_def
  NewAssistantMessage_def RoleSystem_def RoleUser_def RoleAssistant_def

lemmas option_defs =
  apply_options_def NewRequestConfig_def WithThinking_def WithModel_def
  WithTemperature_def WithMaxTokens_def WithTopP_def WithStreaming_def WithParameters_def
  WithParameter_def WithStreamCallback_def

section \<open>The generic adapter's thinking adaptation\<close>



lemma generic_request_sent:
  "snd (snd (generic_request m messages opts)) =
     (if Thinking (apply_options opts NewRequestConfig) = Some False
      then no_think_loop 0 messages messages else messages)"
  by (simp add: generic_request_def Let_def)




text \<open>
  The caller's messages stay as they are when thinking is not explicitly disabled, and
  when no message has the system role. (The other two adapters only read \<open>messages\<close>.)
\<close>

lemma no_think_loop_no_system:
  "\<forall>p \<in> set processed. Role p \<noteq> RoleSystem \<Longrightarrow> no_think_loop i processed messages = messages"
  by (induction processed arbitrary: i) simp_all

lemma generic_Chat_messages_kept:
  assumes "Thinking (apply_options opts NewRequestConfig) \<noteq> Some False \<or>
           (\<forall>p \<in> set messages. Role p \<noteq> RoleSystem)"
  shows "snd (generic_Chat J m messages opts) = messages"
proof -
  from assms have "snd (snd (generic_request m messages opts)) = messages"
    by (auto simp: generic_request_sent no_think_loop_no_system)
  then show ?thesis
    by (cases "generic_request m messages opts")
       (auto simp: generic_Chat_def Let_def split: sum.splits)
qed

text \<open>
  C1. The comment in \<open>Chat\<close> announces a copy made so that the slice the user passed
  is not modified, but the loop writes the suffix to \<open>messages[i]\<close>, an element of
  the caller's slice, and the copy is only read. With thinking disabled and a system
  message present, the caller's first system message carries the suffix when the call
  returns.
\<close>

theorem generic_Chat_writes_callers_messages:
  "snd (generic_Chat (json_answering (answer_with ''Hi'') (\<lambda>p. no_chunk))
          (model_on (http_answering ''{}'' [])) test_messages
          [WithThinking False :: unit Option]) =
     [NewSystemMessage (''You are a helpful assistant.'' @ CHR 0x0A # ''/no_think''),
      NewUserMessage ''hello''] \<and>
   snd (generic_Chat (json_answering (answer_with ''Hi'') (\<lambda>p. no_chunk))
          (model_on (http_answering ''{}'' [])) test_messages
          [WithThinking False :: unit Option]) \<noteq> test_messages"
  by (simp add: generic_Chat_def generic_request_def Let_def no_think_def example_defs
      option_defs)

section \<open>A response without choices\<close>

text \<open>
  C5. When the response body decodes to the expected shape with no choices, the generic
  adapter returns the error \<open>generic provider: invalid response, no choices found\<close>,
  while the cloud-hosted adapter (not streaming) and the OpenAI-compatible adapter
  return a response whose message is the zero message, with the raw body attached.
\<close>

theorem zero_choices_per_adapter:
  assumes "Unmarshal_apiResp J rawBody = Inr r" and "resp_Choices r = []"
  shows
    "(Post (requester_HTTPClient (requester (client m))) (APIURL (clientImpl.config (client m)))
        (fst (snd (generic_request m messages opts))) (fst (generic_request m messages opts)) =
        Inr rawBody \<longrightarrow>
      fst (generic_Chat J m messages opts) =
        Inl (Errorf ''generic provider: invalid response, no choices found'')) \<and>
     (\<not> Streaming (apply_options opts NewRequestConfig) \<and>
      Post (requester_HTTPClient (requester (client m))) (APIURL (clientImpl.config (client m)))
        (bearer_headers m) (dashscope_requestBody m messages opts) = Inr rawBody \<longrightarrow>
      fst (dashscope_Chat J m messages opts s0) =
        Returns (Inr \<lparr>Message = zero_Message, RawResponse = rawBody\<rparr>)) \<and>
     (Post (requester_HTTPClient (requester (client m))) (APIURL (clientImpl.config (client m)))
        (bearer_headers m) (openai_requestBody m messages opts) = Inr rawBody \<longrightarrow>
      openai_Chat J m messages opts = Inr \<lparr>Message = zero_Message, RawResponse = rawBody\<rparr>)"
proof (intro conjI impI)
  assume "Post (requester_HTTPClient (requester (client m))) (APIURL (clientImpl.config (client m)))
        (fst (snd (generic_request m messages opts))) (fst (generic_request m messages opts)) =
        Inr rawBody"
  with assms show "fst (generic_Chat J m messages opts) =
        Inl (Errorf ''generic provider: invalid response, no choices found'')"
    by (cases "generic_request m messages opts") (simp add: generic_Chat_def)
next
  assume "\<not> Streaming (apply_options opts NewRequestConfig) \<and>
      Post (requester_HTTPClient (requester (client m))) (APIURL (clientImpl.config (client m)))
        (bearer_headers m) (dashscope_requestBody m messages opts) = Inr rawBody"
  with assms show "fst (dashscope_Chat J m messages opts s0) =
        Returns (Inr \<lparr>Message = zero_Message, RawResponse = rawBody\<rparr>)"
    by (simp add: dashscope_Chat_def Let_def)
next
  assume "Post (requester_HTTPClient (requester (client m))) (APIURL (clientImpl.config (client m)))
        (bearer_headers m) (openai_requestBody m messages opts) = Inr rawBody"
  with assms show "openai_Chat J m messages opts = Inr \<lparr>Message = zero_Message, RawResponse = rawBody\<rparr>"
    by (simp add: openai_Chat_def Let_def)
qed

theorem zero_choices_per_adapter_witness:
  "fst (generic_Chat (json_answering \<lparr>resp_Choices = []\<rparr> (\<lambda>p. no_chunk))
          (model_on (http_answering ''{}'' [])) test_messages ([] :: unit Option list)) =
     Inl (Errorf ''generic provider: invalid response, no choices found'') \<and>
   fst (dashscope_Chat (json_answering \<lparr>resp_Choices = []\<rparr> (\<lambda>p. no_chunk))
          (model_on (http_answering ''{}'' [])) test_messages ([] :: unit Option list) ()) =
     Returns (Inr \<lparr>Message = zero_Message, RawResponse = ''{}''\<rparr>) \<and>
   openai_Chat (json_answering \<lparr>resp_Choices = []\<rparr> (\<lambda>p. no_chunk))
          (model_on (http_answering ''{}'' [])) test_messages ([] :: unit Option list) =
     Inr \<lparr>Message = zero_Message, RawResponse = ''{}''\<rparr>"
  using zero_choices_per_adapter
    [where J = "json_answering \<lparr>resp_Choices = []\<rparr> (\<lambda>p. no_chunk)"
       and rawBody = "''{}''" and r = "\<lparr>resp_Choices = []\<rparr>"
       and m = "model_on (http_answering ''{}'' [])" and messages = test_messages
       and opts = "[] :: unit Option list" and ?s0.0 = "()"]
  by (simp add: example_defs option_defs)

section \<open>The streaming loop of the cloud-hosted adapter\<close>

text \<open>
  The content fragment that a line of the response body carries: the line is a data
  line, its payload is not the end marker and decodes to a chunk, and the delta of the
  chunk's first choice has a content that is not empty. \<open>fragments\<close> collects the
  fragments of a list of lines in order.

  \<open>sink_ok f s xs\<close> says that the callback \<open>f\<close>, started in state \<open>s\<close>, returns
  no error on any of the fragments \<open>xs\<close> given to it one after the other, and
  \<open>sink_run f s xs\<close> is the state it is in afterwards.
\<close>

definition payload :: "string \<Rightarrow> string" where
  "payload line = TrimSpace (TrimPrefix line ''data: '')"

definition is_done :: "string \<Rightarrow> bool" where
  "is_done line = (HasPrefix line ''data: '' \<and> payload line = ''[DONE]'')"

definition fragment :: "JSON \<Rightarrow> string \<Rightarrow> string option" where
  "fragment J line =
     (if \<not> HasPrefix line ''data: '' \<or> payload line = ''[DONE]'' then None
      else
        (case Unmarshal_chunk J (payload line) of
           Inl err \<Rightarrow> None
         | Inr chunk \<Rightarrow>
             (case chunk_Choices chunk of
                [] \<Rightarrow> None
              | choice # others \<Rightarrow>
                  if delta_Content (Delta choice) = '''' then None
                  else Some (delta_Content (Delta choice)))))"

definition fragments :: "JSON \<Rightarrow> string list \<Rightarrow> string list" where
  "fragments J ls = List.map_filter (fragment J) ls"

fun sink_ok :: "'s StreamCallback \<Rightarrow> 's \<Rightarrow> string list \<Rightarrow> bool" where
  "sink_ok f s [] = True"
| "sink_ok f s (x # xs) = (fst (f s x) = None \<and> sink_ok f (snd (f s x)) xs)"

definition sink_run :: "'s StreamCallback \<Rightarrow> 's \<Rightarrow> string list \<Rightarrow> 's" where
  "sink_run f s xs = foldl (\<lambda>s x. snd (f s x)) s xs"

lemma fragments_Nil: "fragments J [] = []"
  by (simp add: fragments_def List.map_filter_simps)

lemma fragments_Cons:
  "fragments J (l # ls) =
     (case fragment J l of None \<Rightarrow> fragments J ls | Some f \<Rightarrow> f # fragments J ls)"
  by (simp add: fragments_def List.map_filter_simps split: option.splits)

lemma fragments_append: "fragments J (xs @ ys) = fragments J xs @ fragments J ys"
  by (simp add: fragments_def List.map_filter_def)

lemma index_0: "index (x # xs) 0 = Some x"
  by (simp add: index_def)


lemma stream_line_non_data:
  "\<not> HasPrefix l ''data: '' \<Longrightarrow> stream_line J callback l st = Continue st"
  by (simp add: stream_line_def)

lemma stream_line_malformed:
  "HasPrefix l ''data: '' \<Longrightarrow> payload l \<noteq> ''[DONE]'' \<Longrightarrow>
   Unmarshal_chunk J (payload l) = Inl e \<Longrightarrow> stream_line J callback l st = Continue st"
  by (simp add: stream_line_def payload_def Let_def)

lemma stream_line_no_choices:
  "HasPrefix l ''data: '' \<Longrightarrow> payload l \<noteq> ''[DONE]'' \<Longrightarrow>
   Unmarshal_chunk J (payload l) = Inr chunk \<Longrightarrow> chunk_Choices chunk = [] \<Longrightarrow>
   stream_line J callback l st = Continue st"
  by (simp add: stream_line_def payload_def Let_def)

lemma stream_line_no_fragment:
  assumes "\<not> is_done l" and "fragment J l = None"
  shows "\<exists>st'. stream_line J callback l st = Continue st' \<and>
           fullContent st' = fullContent st \<and> sink st' = sink st \<and> calls st' = calls st"
proof (cases "HasPrefix l ''data: ''")
  case False
  then show ?thesis by (simp add: stream_line_non_data)
next
  case True
  with assms(1) have nd: "payload l \<noteq> ''[DONE]''" by (simp add: is_done_def)
  show ?thesis
  proof (cases "Unmarshal_chunk J (payload l)")
    case (Inl e)
    with True nd show ?thesis by (simp add: stream_line_malformed)
  next
    case (Inr chunk)
    show ?thesis
    proof (cases "chunk_Choices chunk")
      case Nil
      with True nd Inr show ?thesis by (simp add: stream_line_no_choices)
    next
      case (Cons choice others)
      with assms(2) True nd Inr have "delta_Content (Delta choice) = ''''"
        by (simp add: fragment_def split: if_splits)
      with True nd Inr Cons show ?thesis
        by (simp add: stream_line_def payload_def Let_def index_0)
    qed
  qed
qed

lemma fragment_SomeD:
  assumes "fragment J l = Some f"
  shows "HasPrefix l ''data: '' \<and> payload l \<noteq> ''[DONE]'' \<and> f \<noteq> '''' \<and>
         (\<exists>chunk choice others. Unmarshal_chunk J (payload l) = Inr chunk \<and>
            chunk_Choices chunk = choice # others \<and> delta_Content (Delta choice) = f)"
  using assms
  by (auto simp: fragment_def split: if_splits sum.splits list.splits)

lemma stream_line_fragment:
  assumes "fragment J l = Some f"
  shows "\<exists>st'. stream_line J (Some cb) l st =
           (case fst (cb (sink st) f) of None \<Rightarrow> Continue st' | Some e \<Rightarrow> Return e st') \<and>
           fullContent st' = fullContent st @ f \<and> sink st' = snd (cb (sink st) f) \<and>
           calls st' = calls st @ [f]"
proof -
  from fragment_SomeD[OF assms] obtain chunk choice others where
    h: "HasPrefix l ''data: ''" "payload l \<noteq> ''[DONE]''" "f \<noteq> ''''"
       "Unmarshal_chunk J (payload l) = Inr chunk" "chunk_Choices chunk = choice # others"
       "delta_Content (Delta choice) = f"
    by blast
  then show ?thesis
    by (cases "cb (sink st) f")
       (simp add: stream_line_def payload_def Let_def index_0 split: option.splits)
qed

lemma stream_line_fragment_nil:
  assumes "fragment J l = Some f"
  shows "\<exists>st'. stream_line J None l st = Continue st' \<and>
           fullContent st' = fullContent st @ f \<and> sink st' = sink st \<and>
           calls st' = calls st"
proof -
  from fragment_SomeD[OF assms] obtain chunk choice others where
    h: "HasPrefix l ''data: ''" "payload l \<noteq> ''[DONE]''" "f \<noteq> ''''"
       "Unmarshal_chunk J (payload l) = Inr chunk" "chunk_Choices chunk = choice # others"
       "delta_Content (Delta choice) = f"
    by blast
  then show ?thesis
    by (simp add: stream_line_def payload_def Let_def index_0)
qed

lemma stream_loop_fragments:
  assumes "\<forall>l \<in> set ls. \<not> is_done l" and "sink_ok cb (sink st) (fragments J ls)"
  shows "\<exists>st'. stream_loop J (Some cb) (ls @ rest) k st =
                 stream_loop J (Some cb) rest (k + length ls) st' \<and>
           fullContent st' = fullContent st @ concat (fragments J ls) \<and>
           sink st' = sink_run cb (sink st) (fragments J ls) \<and>
           calls st' = calls st @ fragments J ls"
  using assms
proof (induction ls arbitrary: st k)
  case Nil
  show ?case by (intro exI[of _ st]) (simp add: fragments_Nil sink_run_def)
next
  case (Cons l ls)
  from Cons.prems(1) have nd: "\<not> is_done l" and nds: "\<forall>l \<in> set ls. \<not> is_done l" by simp_all
  show ?case
  proof (cases "fragment J l")
    case None
    from stream_line_no_fragment[OF nd None, of "Some cb" st] obtain st1 where
      st1: "stream_line J (Some cb) l st = Continue st1" "fullContent st1 = fullContent st"
           "sink st1 = sink st" "calls st1 = calls st"
      by blast
    from Cons.prems(2) None st1 have "sink_ok cb (sink st1) (fragments J ls)"
      by (simp add: fragments_Cons)
    from Cons.IH[OF nds this, of "Suc k"] obtain st' where
      "stream_loop J (Some cb) (ls @ rest) (Suc k) st1 =
         stream_loop J (Some cb) rest (Suc k + length ls) st'"
      "fullContent st' = fullContent st1 @ concat (fragments J ls)"
      "sink st' = sink_run cb (sink st1) (fragments J ls)"
      "calls st' = calls st1 @ fragments J ls"
      by blast
    with st1 None show ?thesis by (intro exI[of _ st']) (simp add: fragments_Cons)
  next
    case (Some f)
    from Cons.prems(2) Some have ok: "fst (cb (sink st) f) = None"
      and oks: "sink_ok cb (snd (cb (sink st) f)) (fragments J ls)"
      by (simp_all add: fragments_Cons)
    from stream_line_fragment[OF Some, of cb st] ok obtain st1 where
      st1: "stream_line J (Some cb) l st = Continue st1" "fullContent st1 = fullContent st @ f"
           "sink st1 = snd (cb (sink st) f)" "calls st1 = calls st @ [f]"
      by auto
    from oks st1 have "sink_ok cb (sink st1) (fragments J ls)" by simp
    from Cons.IH[OF nds this, of "Suc k"] obtain st' where
      "stream_loop J (Some cb) (ls @ rest) (Suc k) st1 =
         stream_loop J (Some cb) rest (Suc k + length ls) st'"
      "fullContent st' = fullContent st1 @ concat (fragments J ls)"
      "sink st' = sink_run cb (sink st1) (fragments J ls)"
      "calls st' = calls st1 @ fragments J ls"
      by blast
    with st1 Some show ?thesis
      by (intro exI[of _ st']) (simp add: fragments_Cons sink_run_def)
  qed
qed

text \<open>The loop never indexes out of range, whatever the body holds.\<close>

lemma stream_line_no_panic: "stream_line J callback l st \<noteq> IndexOutOfRange"
  by (auto simp: stream_line_def Let_def index_def split: sum.splits option.splits prod.splits)

lemma stream_loop_no_panic: "stream_loop J callback ls k st \<noteq> Panicked"
proof (induction ls arbitrary: k st)
  case Nil
  show ?case by simp
next
  case (Cons l ls)
  then show ?case
    using stream_line_no_panic[of J callback l st]
    by (cases "stream_line J callback l st") simp_all
qed

lemma dashscope_Chat_no_panic: "fst (dashscope_Chat J m messages opts s0) \<noteq> Panics"
proof -
  have "\<And>b. stream_loop J (StreamCallback (apply_options opts NewRequestConfig)) (Lines b) 0
         \<lparr>fullContent = '''', role = ''assistant'', sink = s0, calls = []\<rparr> \<noteq> Panicked"
    by (rule stream_loop_no_panic)
  then show ?thesis
    by (auto simp: dashscope_Chat_def Let_def split: sum.splits loop_end.splits option.splits)
qed

subsection \<open>An example stream\<close>

text \<open>
  The lines of the scenario (two content chunks and the end marker), with a comment line,
  a malformed chunk and a chunk that only reports the usage among them, a decoder that
  knows these payloads, and two callbacks: one records every fragment, the other also
  returns an error on one fragment.
\<close>

definition content_chunk :: "string \<Rightarrow> dashscopeChunk" where
  "content_chunk c =
     \<lparr>chunk_Choices =
        [\<lparr>Delta = \<lparr>delta_Content = c, delta_Role = ''''\<rparr>, FinishReason = None\<rparr>],
      Usage = None\<rparr>"

definition usage_chunk :: dashscopeChunk where
  "usage_chunk =
     \<lparr>chunk_Choices = [],
      Usage = Some \<lparr>TotalTokens = 12, InputTokens = 10, OutputTokens = 2\<rparr>\<rparr>"

definition hel_line :: string where
  \<open>hel_line = ''data: {"choices":[{"delta":{"content":"Hel"}}]}''\<close>

definition lo_line :: string where
  \<open>lo_line = ''data: {"choices":[{"delta":{"content":"lo"}}]}''\<close>

definition usage_line :: string where
  \<open>usage_line = ''data: {"choices":[],"usage":{"total_tokens":12}}''\<close>

definition malformed_line :: string where
  \<open>malformed_line = ''data: {"choices":''\<close>

definition comment_line :: string where
  "comment_line = '': keep-alive''"

definition done_line :: string where
  "done_line = ''data: [DONE]''"

definition scenario_decoder :: "string \<Rightarrow> error + dashscopeChunk" where
  \<open>scenario_decoder p =
     (if p = ''{"choices":[{"delta":{"content":"Hel"}}]}'' then Inr (content_chunk ''Hel'')
      else if p = ''{"choices":[{"delta":{"content":"lo"}}]}'' then Inr (content_chunk ''lo'')
      else if p = ''{"choices":[],"usage":{"total_tokens":12}}'' then Inr usage_chunk
      else no_chunk)\<close>

definition scenario_json :: JSON where
  "scenario_json = json_answering \<lparr>resp_Choices = []\<rparr> scenario_decoder"

definition recorder :: "(string list) StreamCallback" where
  "recorder = (\<lambda>log frag. (None, log @ [frag]))"

definition refusing :: "string \<Rightarrow> (string list) StreamCallback" where
  "refusing bad =
     (\<lambda>log frag. (if frag = bad then Some (Errorf ''stop'') else None, log @ [frag]))"

lemmas stream_example_defs =
  content_chunk_def usage_chunk_def hel_line_def lo_line_def usage_line_def
  malformed_line_def comment_line_def done_line_def scenario_decoder_def scenario_json_def
  recorder_def refusing_def

lemmas line_defs =
  payload_def is_done_def fragment_def TrimPrefix_def TrimSpace_def trim_left.simps
  space_width_def asciiSpace_def utf8_spaces_def

lemma payload_hel_line: \<open>payload hel_line = ''{"choices":[{"delta":{"content":"Hel"}}]}''\<close>
  by (simp add: hel_line_def line_defs)

lemma payload_lo_line: \<open>payload lo_line = ''{"choices":[{"delta":{"content":"lo"}}]}''\<close>
  by (simp add: lo_line_def line_defs)

lemma payload_usage_line: \<open>payload usage_line = ''{"choices":[],"usage":{"total_tokens":12}}''\<close>
  by (simp add: usage_line_def line_defs)

lemma payload_malformed_line: \<open>payload malformed_line = ''{"choices":''\<close>
  by (simp add: malformed_line_def line_defs)

lemma payload_done_line: "payload done_line = ''[DONE]''"
  by (simp add: done_line_def line_defs)

lemma data_lines:
  "HasPrefix hel_line ''data: ''" "HasPrefix lo_line ''data: ''"
  "HasPrefix usage_line ''data: ''" "HasPrefix malformed_line ''data: ''"
  "HasPrefix done_line ''data: ''" "\<not> HasPrefix comment_line ''data: ''"
  by (simp_all add: stream_example_defs)

lemma scenario_fragments:
  "fragment scenario_json hel_line = Some ''Hel''"
  "fragment scenario_json lo_line = Some ''lo''"
  "fragment scenario_json usage_line = None"
  "fragment scenario_json malformed_line = None"
  "fragment scenario_json comment_line = None"
  by (simp_all add: fragment_def data_lines payload_hel_line payload_lo_line
      payload_usage_line payload_malformed_line scenario_json_def json_answering_def
      scenario_decoder_def content_chunk_def usage_chunk_def no_chunk_def)

lemma scenario_not_done:
  "\<not> is_done hel_line" "\<not> is_done lo_line" "\<not> is_done usage_line"
  "\<not> is_done malformed_line" "\<not> is_done comment_line" "is_done done_line"
  by (simp_all add: is_done_def data_lines payload_hel_line payload_lo_line
      payload_usage_line payload_malformed_line payload_done_line)






definition aborted_body :: Body where
  "aborted_body = \<lparr>Lines = [comment_line, hel_line] @ lo_line # [done_line],
                    ScanErr = (\<lambda>x. None)\<rparr>"

definition aborted_model :: modelImpl where
  "aborted_model = model_on (http_answering [] ([comment_line, hel_line] @ lo_line # [done_line]))"

subsection \<open>Order of delivery, abort by the callback, chunks without choices\<close>



text \<open>
  C9. When the callback returns an error for a fragment, the streaming call returns
  exactly this error and no response: the line of that fragment is the last one read,
  and the callback has been invoked with the fragments before it and with this one,
  and not again.
\<close>

theorem dashscope_stream_sink_error:
  assumes streaming: "Streaming (apply_options opts NewRequestConfig)"
    and cb: "StreamCallback (apply_options opts NewRequestConfig) = Some cb"
    and post: "PostStream (requester_HTTPClient (requester (client m)))
                 (APIURL (clientImpl.config (client m))) (bearer_headers m)
                 (dashscope_requestBody m messages opts) = Inr body"
    and lines: "Lines body = ls @ l # rest"
    and chunks: "\<forall>x \<in> set ls. \<not> is_done x"
    and sink: "sink_ok cb s0 (fragments J ls)"
    and frag: "fragment J l = Some f"
    and fails: "fst (cb (sink_run cb s0 (fragments J ls)) f) = Some e"
  shows "dashscope_Chat J m messages opts s0 =
           (Returns (Inl e),
            \<lparr>sink_state = snd (cb (sink_run cb s0 (fragments J ls)) f),
             sink_calls = fragments J ls @ [f],
             lines_read = Suc (length ls)\<rparr>)"
proof -
  let ?st0 = "\<lparr>fullContent = '''', role = ''assistant'', sink = s0, calls = []\<rparr>"
  from sink have "sink_ok cb (sink ?st0) (fragments J ls)" by simp
  from stream_loop_fragments[OF chunks this, of "l # rest" 0] obtain st' where
    loop: "stream_loop J (Some cb) (ls @ l # rest) 0 ?st0 =
             stream_loop J (Some cb) (l # rest) (0 + length ls) st'"
    and st': "sink st' = sink_run cb (sink ?st0) (fragments J ls)"
      "calls st' = calls ?st0 @ fragments J ls"
    by blast
  from stream_line_fragment[OF frag, of cb st'] fails st' obtain st'' where
    line: "stream_line J (Some cb) l st' = Return e st''"
    and st'': "sink st'' = snd (cb (sink st') f)" "calls st'' = calls st' @ [f]"
    by auto
  from loop line have "stream_loop J (Some cb) (Lines body) 0 ?st0 =
      Returned e st'' (Suc (length ls))"
    by (simp add: lines)
  with streaming cb post st' st'' show ?thesis
    by (simp add: dashscope_Chat_def Let_def)
qed

theorem dashscope_stream_sink_error_witness:
  "fst (refusing ''lo'' [''Hel''] ''lo'') = Some (Errorf ''stop'') \<and>
   dashscope_Chat scenario_json aborted_model [NewUserMessage ''hello'']
     [WithStreamCallback (refusing ''lo'')] [] =
     (Returns (Inl (Errorf ''stop'')),
      \<lparr>sink_state = [''Hel'', ''lo''], sink_calls = [''Hel'', ''lo''], lines_read = 3\<rparr>)"
proof -
  have frs: "fragments scenario_json [comment_line, hel_line] = [''Hel'']"
    by (simp add: fragments_Cons fragments_Nil scenario_fragments)
  have h1: "Streaming (apply_options [WithStreamCallback (refusing ''lo'')] NewRequestConfig)"
    by (simp add: option_defs)
  have h2: "StreamCallback (apply_options [WithStreamCallback (refusing ''lo'')]
              NewRequestConfig) = Some (refusing ''lo'')"
    by (simp add: option_defs)
  have h3: "PostStream (requester_HTTPClient (requester (client aborted_model)))
     (APIURL (clientImpl.config (client aborted_model))) (bearer_headers aborted_model)
     (dashscope_requestBody aborted_model [NewUserMessage ''hello'']
        [WithStreamCallback (refusing ''lo'')]) = Inr aborted_body"
    by (simp add: aborted_model_def aborted_body_def model_on_def http_answering_def)
  have h4: "Lines aborted_body = [comment_line, hel_line] @ lo_line # [done_line]"
    by (simp add: aborted_body_def)
  have h5: "\<forall>x \<in> set [comment_line, hel_line]. \<not> is_done x"
    by (simp add: scenario_not_done)
  have h6: "sink_ok (refusing ''lo'') [] (fragments scenario_json [comment_line, hel_line])"
    by (simp add: frs refusing_def)
  have h7: "fragment scenario_json lo_line = Some ''lo''"
    by (rule scenario_fragments)
  have h8: "fst (refusing ''lo''
              (sink_run (refusing ''lo'') [] (fragments scenario_json [comment_line, hel_line]))
              ''lo'') = Some (Errorf ''stop'')"
    by (simp add: frs sink_run_def refusing_def)
  from dashscope_stream_sink_error [OF h1 h2 h3 h4 h5 h6 h7 h8]
  show ?thesis
    by (simp add: frs sink_run_def refusing_def)
qed

text \<open>
  C10. A data line whose payload decodes to a chunk with no choices is skipped: the
  element \<open>Choices[0]\<close> is not read, the accumulated content, the callback's state and
  its record of calls stay as they are, and the loop goes on with the next line.
\<close>

theorem dashscope_stream_empty_choices:
  assumes "HasPrefix l ''data: ''" and "payload l \<noteq> ''[DONE]''"
    and "Unmarshal_chunk J (payload l) = Inr chunk" and "chunk_Choices chunk = []"
  shows "stream_line J callback l st = Continue st \<and>
         stream_loop J callback (l # rest) k st = stream_loop J callback rest (Suc k) st"
  using assms by (simp add: stream_line_no_choices)

theorem dashscope_stream_empty_choices_witness:
  "HasPrefix usage_line ''data: '' \<and> payload usage_line \<noteq> ''[DONE]'' \<and>
   Unmarshal_chunk scenario_json (payload usage_line) = Inr usage_chunk \<and>
   chunk_Choices usage_chunk = [] \<and>
   stream_line scenario_json (Some recorder) usage_line
     \<lparr>fullContent = ''Hel'', role = ''assistant'', sink = [''Hel''], calls = [''Hel'']\<rparr> =
     Continue
       \<lparr>fullContent = ''Hel'', role = ''assistant'', sink = [''Hel''], calls = [''Hel'']\<rparr> \<and>
   stream_loop scenario_json (Some recorder) (usage_line # [done_line]) 0
     \<lparr>fullContent = ''Hel'', role = ''assistant'', sink = [''Hel''], calls = [''Hel'']\<rparr> =
     stream_loop scenario_json (Some recorder) [done_line] (Suc 0)
       \<lparr>fullContent = ''Hel'', role = ''assistant'', sink = [''Hel''], calls = [''Hel'']\<rparr>"
proof -
  have h1: "HasPrefix usage_line ''data: ''"
    by (rule data_lines)
  have h2: "payload usage_line \<noteq> ''[DONE]''"
    by (simp add: payload_usage_line)
  have h3: "Unmarshal_chunk scenario_json (payload usage_line) = Inr usage_chunk"
    by (simp add: payload_usage_line scenario_json_def json_answering_def scenario_decoder_def)
  have h4: "chunk_Choices usage_chunk = []"
    by (simp add: usage_chunk_def)
  from dashscope_stream_empty_choices [OF h1 h2 h3 h4] h1 h2 h3 h4
  show ?thesis by blast
qed

section \<open>The thinking field of the cloud-hosted adapter\<close>

text \<open>
  The request body starts from the caller's extra parameters, so a caller who leaves
  the thinking option unset and passes \<open>enable_thinking\<close> among the extra parameters
  gets a body with the field.
\<close>

theorem dashscope_thinking_unset_field_present:
  "Thinking (apply_options [WithParameter ''enable_thinking'' (AnyBool True) :: unit Option]
      NewRequestConfig) = None \<and>
   dashscope_requestBody (model_on http_down) test_messages
     [WithParameter ''enable_thinking'' (AnyBool True) :: unit Option] ''enable_thinking'' =
     Some (AnyBool True)"
  by (simp add: dashscope_requestBody_def Let_def option_defs)

text \<open>
  C7, as far as it holds. If the thinking option is set, the request body holds
  \<open>enable_thinking\<close> with exactly that boolean value. If it is unset, the adapter adds
  no thinking field of its own: the body holds under \<open>enable_thinking\<close> what the
  caller's extra parameters hold there, and omits the field when they hold nothing.
\<close>

theorem dashscope_thinking_field:
  "(Thinking (apply_options opts NewRequestConfig) = Some b \<longrightarrow>
      dashscope_requestBody m messages opts ''enable_thinking'' = Some (AnyBool b)) \<and>
   (Thinking (apply_options opts NewRequestConfig) = None \<longrightarrow>
      dashscope_requestBody m messages opts ''enable_thinking'' =
        Parameters (apply_options opts NewRequestConfig) ''enable_thinking'')"
  by (simp add: dashscope_requestBody_def Let_def split: option.splits)

theorem dashscope_thinking_field_witness:
  "Thinking (apply_options [WithThinking False :: unit Option] NewRequestConfig) = Some False \<and>
   dashscope_requestBody (model_on http_down) test_messages [WithThinking False :: unit Option]
     ''enable_thinking'' = Some (AnyBool False) \<and>
   Thinking (apply_options ([] :: unit Option list) NewRequestConfig) = None \<and>
   dashscope_requestBody (model_on http_down) test_messages ([] :: unit Option list)
     ''enable_thinking'' = None"
  using
    dashscope_thinking_field [of "[WithThinking False :: unit Option]" False
      "model_on http_down" test_messages]
    dashscope_thinking_field [of "[] :: unit Option list" False
      "model_on http_down" test_messages]
  by (simp add: option_defs)

section \<open>Requirements of client construction\<close>

text \<open>
  The configuration each \<open>NewClient\<close> has after applying the options to its defaults.
\<close>

definition dashscope_configured :: "HTTPClient \<Rightarrow> ClientOption list \<Rightarrow> ClientConfig" where
  "dashscope_configured dflt opts =
     apply_client_options opts
       ((NewClientConfig dflt)
          \<lparr>APIURL := ''https://dashscope.aliyuncs.com/compatible-mode/v1/chat/completions''\<rparr>)"

definition generic_configured :: "HTTPClient \<Rightarrow> ClientOption list \<Rightarrow> ClientConfig" where
  "generic_configured dflt opts = apply_client_options opts (NewClientConfig dflt)"

definition openai_configured :: "HTTPClient \<Rightarrow> ClientOption list \<Rightarrow> ClientConfig" where
  "openai_configured dflt opts =
     apply_client_options opts
       ((NewClientConfig dflt)\<lparr>APIURL := ''https://api.openai.com/v1/chat/completions''\<rparr>)"

text \<open>
  C6. Each of the three constructors fails with its API-key error when the configured
  API key is empty. With a key that is not empty, the cloud-hosted and the
  OpenAI-compatible constructor succeed; the generic constructor fails with its API-URL
  error when the configured URL is empty and succeeds otherwise. A client that is
  constructed holds the configured key and URL.
\<close>

theorem NewClient_requirements:
  "(APIKey (dashscope_configured dflt opts) = '''' \<longrightarrow>
      dashscope_NewClient dflt opts =
        Inl (Errorf ''dashscope: API key is required, use llm.WithAPIKey() option'')) \<and>
   (APIKey (dashscope_configured dflt opts) \<noteq> '''' \<longrightarrow>
      (\<exists>c. dashscope_NewClient dflt opts = Inr c \<and>
           clientImpl.config c = dashscope_configured dflt opts)) \<and>
   (APIKey (openai_configured dflt opts) = '''' \<longrightarrow>
      openai_NewClient dflt opts =
        Inl (Errorf ''openai provider: API key is required, use spec.WithAPIKey()'')) \<and>
   (APIKey (openai_configured dflt opts) \<noteq> '''' \<longrightarrow>
      (\<exists>c. openai_NewClient dflt opts = Inr c \<and>
           clientImpl.config c = openai_configured dflt opts)) \<and>
   (APIKey (generic_configured dflt opts) = '''' \<longrightarrow>
      generic_NewClient dflt opts =
        Inl (Errorf ''generic provider: API key is required, use llm.WithAPIKey()'')) \<and>
   (APIKey (generic_configured dflt opts) \<noteq> '''' \<and>
    APIURL (generic_configured dflt opts) = '''' \<longrightarrow>
      generic_NewClient dflt opts =
        Inl (Errorf
          ''generic provider: API URL is required for private deployment, use llm.WithAPIURL()'')) \<and>
   (APIKey (generic_configured dflt opts) \<noteq> '''' \<and>
    APIURL (generic_configured dflt opts) \<noteq> '''' \<longrightarrow>
      (\<exists>c. generic_NewClient dflt opts = Inr c \<and>
           clientImpl.config c = generic_configured dflt opts))"
  by (simp add: dashscope_NewClient_def openai_NewClient_def generic_NewClient_def
      dashscope_configured_def openai_configured_def generic_configured_def Let_def)

lemmas client_option_defs =
  apply_client_options_def NewClientConfig_def WithAPIKey_def WithAPIURL_def
  WithHTTPClient_def dashscope_configured_def openai_configured_def generic_configured_def

theorem NewClient_requirements_witness:
  "APIKey (dashscope_configured http_down [WithAPIKey '''']) = '''' \<and>
   dashscope_NewClient http_down [WithAPIKey ''''] =
     Inl (Errorf ''dashscope: API key is required, use llm.WithAPIKey() option'') \<and>
   APIKey (dashscope_configured http_down [WithAPIKey ''sk-1'']) \<noteq> '''' \<and>
   (\<exists>c. dashscope_NewClient http_down [WithAPIKey ''sk-1''] = Inr c) \<and>
   openai_NewClient http_down [WithAPIKey ''''] =
     Inl (Errorf ''openai provider: API key is required, use spec.WithAPIKey()'') \<and>
   (\<exists>c. openai_NewClient http_down [WithAPIKey ''sk-1''] = Inr c) \<and>
   generic_NewClient http_down [WithAPIURL ''http://qwen.example/v1'', WithAPIKey ''''] =
     Inl (Errorf ''generic provider: API key is required, use llm.WithAPIKey()'') \<and>
   APIURL (generic_configured http_down [WithAPIKey ''sk-1'']) = '''' \<and>
   generic_NewClient http_down [WithAPIKey ''sk-1''] =
     Inl (Errorf
       ''generic provider: API URL is required for private deployment, use llm.WithAPIURL()'') \<and>
   (\<exists>c. generic_NewClient http_down [WithAPIURL ''http://qwen.example/v1'', WithAPIKey ''sk-1''] =
          Inr c)"
  using
    NewClient_requirements [of http_down "[WithAPIKey '''']"]
    NewClient_requirements [of http_down "[WithAPIKey ''sk-1'']"]
    NewClient_requirements [of http_down "[WithAPIURL ''http://qwen.example/v1'', WithAPIKey '''']"]
    NewClient_requirements
      [of http_down "[WithAPIURL ''http://qwen.example/v1'', WithAPIKey ''sk-1'']"]
  by (auto simp add: client_option_defs)

section \<open>The client cache of the facade\<close>

subsection \<open>What the cache guarantees\<close>

text \<open>
  In every state that resolutions reach, a cached pointer points into the heap and no
  two keys share a pointer.
\<close>

definition cache_ok :: "facade \<Rightarrow> bool" where
  "cache_ok st =
     ((\<forall>k p. clientCache st k = Some p \<longrightarrow> p < length (heap st)) \<and>
      (\<forall>k k' p. clientCache st k = Some p \<and> clientCache st k' = Some p \<longrightarrow> k = k'))"

lemma cache_ok_init: "cache_ok facade_init"
  by (simp add: cache_ok_def facade_init_def)

lemma GetClient_cached:
  "clientCache st (cacheKey cfg) = Some p \<Longrightarrow> GetClient dflt cfg st = (Inr p, st)"
  by (simp add: GetClient_def)

lemma GetClient_failed:
  "clientCache st (cacheKey cfg) = None \<Longrightarrow> construct dflt cfg = Inl err \<Longrightarrow>
   GetClient dflt cfg st = (Inl err, st)"
  by (simp add: GetClient_def)

lemma GetClient_created:
  "clientCache st (cacheKey cfg) = None \<Longrightarrow> construct dflt cfg = Inr c \<Longrightarrow>
   GetClient dflt cfg st =
     (Inr (length (heap st)),
      st\<lparr>heap := heap st @ [c],
         clientCache := (clientCache st)(cacheKey cfg \<mapsto> length (heap st))\<rparr>)"
  by (simp add: GetClient_def)

lemma GetClient_keeps_entries:
  assumes "clientCache st k = Some p"
  shows "clientCache (snd (GetClient dflt cfg st)) k = Some p"
proof (cases "clientCache st (cacheKey cfg)")
  case (Some q)
  with assms show ?thesis by (simp add: GetClient_cached)
next
  case None
  with assms have "k \<noteq> cacheKey cfg" by auto
  with None assms show ?thesis
    by (cases "construct dflt cfg") (simp_all add: GetClient_failed GetClient_created)
qed

lemma GetClient_success_cached:
  assumes "GetClient dflt cfg st = (Inr p, st')"
  shows "clientCache st' (cacheKey cfg) = Some p"
proof (cases "clientCache st (cacheKey cfg)")
  case (Some q)
  with assms show ?thesis by (simp add: GetClient_cached)
next
  case None
  with assms show ?thesis
    by (cases "construct dflt cfg") (auto simp: GetClient_failed GetClient_created)
qed

lemma GetClient_cache_ok:
  assumes "cache_ok st"
  shows "cache_ok (snd (GetClient dflt cfg st))"
proof (cases "clientCache st (cacheKey cfg)")
  case (Some q)
  with assms show ?thesis by (simp add: GetClient_cached)
next
  case None
  show ?thesis
  proof (cases "construct dflt cfg")
    case (Inl err)
    with None assms show ?thesis by (simp add: GetClient_failed)
  next
    case (Inr c)
    from assms have bound: "\<And>k p. clientCache st k = Some p \<Longrightarrow> p < length (heap st)"
      and inj: "\<And>k k' p. clientCache st k = Some p \<Longrightarrow> clientCache st k' = Some p \<Longrightarrow> k = k'"
      by (auto simp: cache_ok_def)
    have "cache_ok (st\<lparr>heap := heap st @ [c],
         clientCache := (clientCache st)(cacheKey cfg \<mapsto> length (heap st))\<rparr>)"
      unfolding cache_ok_def
    proof (intro conjI allI impI)
      fix k p
      assume "clientCache (st\<lparr>heap := heap st @ [c],
         clientCache := (clientCache st)(cacheKey cfg \<mapsto> length (heap st))\<rparr>) k = Some p"
      then show "p < length (heap (st\<lparr>heap := heap st @ [c],
         clientCache := (clientCache st)(cacheKey cfg \<mapsto> length (heap st))\<rparr>))"
        using bound[of k p] by (auto split: if_splits)
    next
      fix k k' p
      assume "clientCache (st\<lparr>heap := heap st @ [c],
         clientCache := (clientCache st)(cacheKey cfg \<mapsto> length (heap st))\<rparr>) k = Some p \<and>
        clientCache (st\<lparr>heap := heap st @ [c],
         clientCache := (clientCache st)(cacheKey cfg \<mapsto> length (heap st))\<rparr>) k' = Some p"
      then show "k = k'"
        using bound[of k p] bound[of k' p] inj[of k p k'] by (auto split: if_splits)
    qed
    with None Inr show ?thesis by (simp add: GetClient_created)
  qed
qed

lemma resolve_all_cache_ok: "cache_ok st \<Longrightarrow> cache_ok (resolve_all dflt cfgs st)"
  by (induction cfgs arbitrary: st) (simp_all add: GetClient_cache_ok)

lemma resolve_all_keeps_entries:
  "clientCache st k = Some p \<Longrightarrow> clientCache (resolve_all dflt cfgs st) k = Some p"
  by (induction cfgs arbitrary: st) (simp_all add: GetClient_keeps_entries)

text \<open>
  Two resolutions with the same cache key return the same instance, whatever is
  resolved in between.
\<close>

lemma GetClient_same_key_same_instance:
  assumes "GetClient dflt a st = (Inr p, st1)" and "cacheKey b = cacheKey a"
  shows "GetClient dflt b (resolve_all dflt mids st1) = (Inr p, resolve_all dflt mids st1)"
proof -
  from assms(1) have "clientCache st1 (cacheKey a) = Some p"
    by (rule GetClient_success_cached)
  then have "clientCache (resolve_all dflt mids st1) (cacheKey b) = Some p"
    using assms(2) by (simp add: resolve_all_keeps_entries)
  then show ?thesis by (rule GetClient_cached)
qed

text \<open>Two successful resolutions with different cache keys return different instances.\<close>

lemma GetClient_other_key_other_instance:
  assumes ok: "cache_ok st"
    and first: "GetClient dflt a st = (Inr p, st1)"
    and second: "GetClient dflt b (resolve_all dflt mids st1) = (Inr q, st2)"
    and keys: "cacheKey a \<noteq> cacheKey b"
  shows "p \<noteq> q"
proof
  assume same: "p = q"
  from first have "st1 = snd (GetClient dflt a st)" by simp
  with ok have "cache_ok st1" by (simp add: GetClient_cache_ok)
  then have "cache_ok (resolve_all dflt mids st1)" by (rule resolve_all_cache_ok)
  moreover from second have st2: "st2 = snd (GetClient dflt b (resolve_all dflt mids st1))"
    by simp
  ultimately have ok2: "cache_ok st2" by (simp add: GetClient_cache_ok)
  from first have "clientCache st1 (cacheKey a) = Some p" by (rule GetClient_success_cached)
  then have "clientCache (resolve_all dflt mids st1) (cacheKey a) = Some p"
    by (rule resolve_all_keeps_entries)
  then have pa: "clientCache st2 (cacheKey a) = Some p"
    unfolding st2 by (rule GetClient_keeps_entries)
  from second have "clientCache st2 (cacheKey b) = Some q" by (rule GetClient_success_cached)
  with pa same ok2 have "cacheKey a = cacheKey b" by (auto simp: cache_ok_def)
  with keys show False by simp
qed

text \<open>
  Configurations that differ in exactly one of the three coordinates have different
  cache keys.
\<close>

definition one_coordinate_differs :: "Config \<Rightarrow> Config \<Rightarrow> bool" where
  "one_coordinate_differs a b =
     ((cfg_Provider a \<noteq> cfg_Provider b \<and> cfg_APIURL a = cfg_APIURL b \<and>
       cfg_APIKey a = cfg_APIKey b) \<or>
      (cfg_Provider a = cfg_Provider b \<and> cfg_APIURL a \<noteq> cfg_APIURL b \<and>
       cfg_APIKey a = cfg_APIKey b) \<or>
      (cfg_Provider a = cfg_Provider b \<and> cfg_APIURL a = cfg_APIURL b \<and>
       cfg_APIKey a \<noteq> cfg_APIKey b))"

lemma one_coordinate_other_key:
  "one_coordinate_differs a b \<Longrightarrow> cacheKey a \<noteq> cacheKey b"
  by (auto simp: one_coordinate_differs_def cacheKey_def)

text \<open>
  An unknown provider whose cache key is not in the cache fails, and the state stays as
  it is. From the initial state this holds for every unknown provider.
\<close>

definition known_provider :: "string \<Rightarrow> bool" where
  "known_provider p = (p = ''dashscope'' \<or> p = ''generic'' \<or> p = ''openai'')"

lemma GetClient_unknown_provider_uncached:
  assumes "\<not> known_provider (cfg_Provider cfg)" and "clientCache st (cacheKey cfg) = None"
  shows "GetClient dflt cfg st = (Inl (Errorf (''unknown provider: '' @ cfg_Provider cfg)), st)"
proof -
  from assms(1) have "construct dflt cfg = Inl (Errorf (''unknown provider: '' @ cfg_Provider cfg))"
    by (simp add: construct_def known_provider_def Let_def)
  with assms(2) show ?thesis by (rule GetClient_failed)
qed

subsection \<open>Colliding cache keys\<close>

text \<open>
  The cache key joins the three coordinates with \<open>|\<close> and does not escape a \<open>|\<close>
  inside a coordinate, so different triples can have the same key. The three
  configurations below all have the key \<open>generic|http://a/v1|p|q\<close>; the second names a
  provider that does not exist.
\<close>

definition first_config :: Config where
  "first_config =
     \<lparr>cfg_Provider = ''generic'', cfg_Model = ''/mnt/Qwen3-30B-A3B/'', cfg_APIKey = ''p|q'',
      cfg_APIURL = ''http://a/v1'', cfg_SystemPrompt = '''', cfg_Thinking = None\<rparr>"

definition unknown_config :: Config where
  "unknown_config =
     \<lparr>cfg_Provider = ''generic|http://a/v1'', cfg_Model = ''/mnt/Qwen3-30B-A3B/'',
      cfg_APIKey = ''q'', cfg_APIURL = ''p'', cfg_SystemPrompt = '''', cfg_Thinking = None\<rparr>"

definition other_config :: Config where
  "other_config =
     \<lparr>cfg_Provider = ''generic'', cfg_Model = ''/mnt/Qwen3-30B-A3B/'', cfg_APIKey = ''q'',
      cfg_APIURL = ''http://a/v1|p'', cfg_SystemPrompt = '''', cfg_Thinking = None\<rparr>"

lemma colliding_keys:
  "cacheKey first_config = ''generic|http://a/v1|p|q''"
  "cacheKey unknown_config = ''generic|http://a/v1|p|q''"
  "cacheKey other_config = ''generic|http://a/v1|p|q''"
  by (simp_all add: cacheKey_def first_config_def unknown_config_def other_config_def)

lemma first_config_constructed:
  "construct http_down first_config =
     Inr (GenericClient
            \<lparr>requester = \<lparr>requester_HTTPClient = http_down\<rparr>,
             config = \<lparr>APIKey = ''p|q'', APIURL = ''http://a/v1'',
                       HTTPClient = http_down\<rparr>\<rparr>)"
  by (simp add: construct_def Let_def generic_NewClient_def apply_client_options_def
      NewClientConfig_def WithAPIKey_def WithAPIURL_def first_config_def)

lemma first_config_resolved:
  "GetClient http_down first_config facade_init =
     (Inr 0,
      \<lparr>clientCache = [''generic|http://a/v1|p|q'' \<mapsto> 0],
       heap = [GenericClient
                 \<lparr>requester = \<lparr>requester_HTTPClient = http_down\<rparr>,
                  config = \<lparr>APIKey = ''p|q'', APIURL = ''http://a/v1'',
                            HTTPClient = http_down\<rparr>\<rparr>]\<rparr>)"
proof -
  have "clientCache facade_init (cacheKey first_config) = None"
    by (simp add: facade_init_def)
  from GetClient_created [OF this first_config_constructed] show ?thesis
    by (simp add: colliding_keys facade_init_def)
qed

lemma collision_cached:
  "clientCache (snd (GetClient http_down first_config facade_init))
     (cacheKey unknown_config) = Some 0"
  "clientCache (snd (GetClient http_down first_config facade_init))
     (cacheKey other_config) = Some 0"
  by (simp_all add: first_config_resolved colliding_keys)

text \<open>
  C8. After \<open>first_config\<close> is resolved, resolving \<open>unknown_config\<close> (an unknown
  provider) does not fail: it returns the instance of \<open>first_config\<close>. Resolving
  \<open>other_config\<close>, a known provider with another URL and another key, returns this
  instance too, and the instance holds the URL and the key of \<open>first_config\<close>.
  Resolved first, \<open>unknown_config\<close> fails as an unknown provider.
\<close>

theorem GetClient_key_collision:
  "fst (GetClient http_down first_config facade_init) = Inr 0 \<and>
   fst (GetClient http_down unknown_config
          (snd (GetClient http_down first_config facade_init))) = Inr 0 \<and>
   fst (GetClient http_down other_config
          (snd (GetClient http_down first_config facade_init))) = Inr 0 \<and>
   fst (GetClient http_down unknown_config facade_init) =
     Inl (Errorf ''unknown provider: generic|http://a/v1'')"
proof (intro conjI)
  show "fst (GetClient http_down first_config facade_init) = Inr 0"
    by (simp add: first_config_resolved)
  show "fst (GetClient http_down unknown_config
          (snd (GetClient http_down first_config facade_init))) = Inr 0"
    by (simp add: GetClient_cached [OF collision_cached(1)])
  show "fst (GetClient http_down other_config
          (snd (GetClient http_down first_config facade_init))) = Inr 0"
    by (simp add: GetClient_cached [OF collision_cached(2)])
  have "\<not> known_provider (cfg_Provider unknown_config)"
    by (simp add: known_provider_def unknown_config_def)
  moreover have "clientCache facade_init (cacheKey unknown_config) = None"
    by (simp add: facade_init_def)
  ultimately show "fst (GetClient http_down unknown_config facade_init) =
     Inl (Errorf ''unknown provider: generic|http://a/v1'')"
    by (simp add: GetClient_unknown_provider_uncached unknown_config_def)
qed

end
